theory Spec2Isabelle
  imports Complex_Main "HOL-Library.Option_ord" "HOL-Library.Sublist"
begin

section \<open>JavaScript numbers\<close>

text \<open>
  A JavaScript number is an IEEE 754 double: a finite value, an infinity or NaN. A
  finite double is kept as the rational it denotes. The two zeros are one value here:
  no response of the backend tells them apart (\<^verbatim>\<open>JSON.stringify\<close> writes both as
  \<^verbatim>\<open>0\<close>).
\<close>

datatype double = Fin rat | PInf | NInf | NaN

text \<open>The number of binary digits of a positive integer.\<close>

function bit_length :: "int \<Rightarrow> int" where
  "bit_length n = (if n \<le> 0 then 0 else 1 + bit_length (n div 2))"
  by pat_completeness auto
termination
  by (relation "measure nat") auto

declare bit_length.simps [simp del]

text \<open>The exponent of a positive rational: \<open>2 powi floor_log2 x \<le> x < 2 powi (floor_log2 x + 1)\<close>.\<close>

definition floor_log2 :: "rat \<Rightarrow> int" where
  "floor_log2 x =
     (let (p, q) = quotient_of x;
          c = bit_length p - bit_length q
      in if 2 powi c \<le> x then c else c - 1)"

definition round_half_even :: "rat \<Rightarrow> int" where
  "round_half_even m =
     (let f = \<lfloor>m\<rfloor>; r = m - of_int f
      in if r < 1 / 2 then f else if 1 / 2 < r then f + 1 else if even f then f else f + 1)"

text \<open>
  The exponent of the last place of the doubles around \<open>x\<close>: 53 significant bits, and
  the subnormal spacing \<open>2 powi (- 1074)\<close> below the smallest normal number.
\<close>

definition ulp_exponent :: "rat \<Rightarrow> int" where
  "ulp_exponent x = max (floor_log2 \<bar>x\<bar> - 52) (- 1074)"

text \<open>
  The double that an exact result is rounded to (round to nearest, ties to even; a
  result that rounds beyond the largest double is an infinity).
\<close>

definition round_double :: "rat \<Rightarrow> double" where
  "round_double x =
     (if x = 0 then Fin 0
      else (let q = ulp_exponent x;
                y = of_int (round_half_even (x / 2 powi q)) * 2 powi q
            in if 2 ^ 1024 \<le> y then PInf else if y \<le> - (2 ^ 1024) then NInf else Fin y))"

text \<open>\<^verbatim>\<open>x + y\<close> on numbers.\<close>

fun dadd :: "double \<Rightarrow> double \<Rightarrow> double" where
  "dadd (Fin a) (Fin b) = round_double (a + b)"
| "dadd NaN y = NaN"
| "dadd x NaN = NaN"
| "dadd PInf NInf = NaN"
| "dadd NInf PInf = NaN"
| "dadd PInf y = PInf"
| "dadd NInf y = NInf"
| "dadd x PInf = PInf"
| "dadd x NInf = NInf"

text \<open>
  \<^verbatim>\<open>x / results.length\<close> for the length of an array that is not empty (a positive
  integer below \<open>2 ^ 32\<close>, which is a double).
\<close>

fun div_count :: "double \<Rightarrow> nat \<Rightarrow> double" where
  "div_count (Fin a) n = round_double (a / of_nat n)"
| "div_count x n = x"

text \<open>
  \<^verbatim>\<open>Math.round\<close>: the nearest integer, a half rounded up; an infinity and NaN are
  returned as they are.
\<close>

fun Math_round :: "double \<Rightarrow> double" where
  "Math_round (Fin r) = Fin (of_int \<lfloor>r + 1 / 2\<rfloor>)"
| "Math_round x = x"

text \<open>
  \<^verbatim>\<open>x || 0\<close> on a stored number or \<^verbatim>\<open>null\<close> (\<open>None\<close>): \<^verbatim>\<open>null\<close>, zero and NaN are
  falsy.
\<close>

fun or_zero :: "double option \<Rightarrow> double" where
  "or_zero None = Fin 0"
| "or_zero (Some NaN) = Fin 0"
| "or_zero (Some x) = x"

text \<open>
  Reading a double: whether it is a whole number, its absolute value and its value
  (0 for what is not finite).
\<close>

definition whole :: "double \<Rightarrow> bool" where
  "whole x = (case x of Fin r \<Rightarrow> r \<in> \<int> | _ \<Rightarrow> False)"

definition magnitude :: "double \<Rightarrow> rat" where
  "magnitude x = (case x of Fin r \<Rightarrow> \<bar>r\<bar> | _ \<Rightarrow> 0)"

definition value_of :: "double \<Rightarrow> rat" where
  "value_of x = (case x of Fin r \<Rightarrow> r | _ \<Rightarrow> 0)"

section \<open>Values, documents and collections\<close>

text \<open>
  The backend (\<^verbatim>\<open>src/nodejs_backend.js\<close>) is a set of Express handlers over four
  Mongoose models. An ObjectId is a natural number, a date is a number of
  milliseconds. A response is a status and a JSON body; an ObjectId and a date are
  kept as JSON leaves of their own (JSON renders them as strings). A JSON number is
  the rational that a finite double denotes: JSON has no infinity and no NaN, and
  \<^verbatim>\<open>res.json\<close> writes \<^verbatim>\<open>null\<close> for them. The numbers that the handlers
  compute with (the scores and the minutes of a test result) are doubles; a number
  that is only stored, compared and written back (a ranking, the index of the correct
  answer) is kept as the rational it denotes.
\<close>

type_synonym objectid = nat
type_synonym date = nat

datatype json =
    JNull
  | JBool bool
  | JNum rat
  | JStr string
  | JObjectId objectid
  | JDate date
  | JArr "json list"
  | JObj "(string \<times> json) list"

datatype response = Response nat json

text \<open>A number as \<^verbatim>\<open>JSON.stringify\<close> writes it.\<close>

fun json_number :: "double \<Rightarrow> json" where
  "json_number (Fin r) = JNum r"
| "json_number x = JNull"

text \<open>\<^verbatim>\<open>userSchema\<close>, lines 28-34.\<close>

record user =
  user_id :: objectid
  user_name :: string
  user_email :: string
  user_password :: string
  user_role :: string
  user_createdAt :: date

text \<open>
  \<^verbatim>\<open>testResultSchema\<close>, lines 39-48. The time spent is the one number that is not
  required, so a stored document may hold \<^verbatim>\<open>null\<close> there (\<open>None\<close>).
\<close>

record testResult =
  tr_id :: objectid
  tr_userId :: objectid
  tr_testType :: string
  tr_section :: string
  tr_score :: double
  tr_totalQuestions :: double
  tr_correctAnswers :: double
  tr_timeSpent :: "double option"
  tr_date :: date

text \<open>\<^verbatim>\<open>universitySchema\<close>, lines 53-67.\<close>

record requirements =
  gre :: bool
  gmat :: bool
  ielts :: bool
  toefl :: bool

record university =
  uni_id :: objectid
  uni_name :: string
  uni_country :: string
  uni_ranking :: "rat option"
  uni_tuitionFee :: string
  uni_scholarships :: "string list"
  uni_requirements :: requirements
  uni_description :: "string option"
  uni_website :: "string option"

text \<open>\<^verbatim>\<open>questionSchema\<close>, lines 72-80.\<close>

record question =
  q_id :: objectid
  q_testType :: string
  q_section :: string
  q_question :: string
  q_options :: "string list"
  q_correctAnswer :: rat
  q_explanation :: "string option"
  q_difficulty :: string

text \<open>The database: one list per collection, in insertion order.\<close>

record db =
  users :: "user list"
  testResults :: "testResult list"
  universities :: "university list"
  questions :: "question list"

text \<open>What an \<^verbatim>\<open>await\<close> can throw into the handler's \<^verbatim>\<open>catch\<close>.\<close>

datatype exn = ValidationError | DuplicateKey | RegexError | IllegalArguments | CastError

section \<open>The libraries\<close>

text \<open>
  bcryptjs, jsonwebtoken and the database's regular-expression engine are not part of
  the repository: the handlers take them as parameters. \<open>bcrypt_hash\<close> is
  \<^verbatim>\<open>bcrypt.hash(password, 10)\<close> as this call answers (the salt is drawn inside),
  \<open>bcrypt_compare\<close> is \<^verbatim>\<open>bcrypt.compare\<close>, \<open>jwt_sign\<close> is \<^verbatim>\<open>jwt.sign\<close> with
  the secret and the 24 hour expiry, \<open>jwt_verify\<close> is \<^verbatim>\<open>jwt.verify\<close> with the secret
  at the time of the request (\<open>None\<close> when it reports an error), and
  \<open>regex_compile_i\<close> reads a pattern with option \<^verbatim>\<open>i\<close> (\<open>None\<close> when the pattern
  is not a regular expression and the query is rejected).
\<close>

record claims =
  c_userId :: objectid
  c_email :: string
  c_role :: string

record env =
  bcrypt_hash :: "string \<Rightarrow> string"
  bcrypt_compare :: "string \<Rightarrow> string \<Rightarrow> bool"
  jwt_sign :: "claims \<Rightarrow> string"
  jwt_verify :: "string \<Rightarrow> claims option"
  regex_compile_i :: "string \<Rightarrow> (string \<Rightarrow> bool) option"

text \<open>
  What the process supplies to one request: the clock (\<^verbatim>\<open>Date.now\<close>) and the
  ObjectId that \<^verbatim>\<open>new Model(...)\<close> draws for the document it builds.
\<close>

record ctx =
  ctx_now :: date
  ctx_oid :: objectid

section \<open>JavaScript and Mongoose helpers\<close>

text \<open>\<^verbatim>\<open>String.prototype.split\<close> on a one-character separator.\<close>

fun split_on :: "char \<Rightarrow> string \<Rightarrow> string list" where
  "split_on d [] = [[]]"
| "split_on d (c # cs) =
     (if c = d then [] # split_on d cs
      else (case split_on d cs of
              [] \<Rightarrow> [[c]]
            | w # ws \<Rightarrow> (c # w) # ws))"

text \<open>
  \<^verbatim>\<open>.sort({k: 1})\<close> and \<^verbatim>\<open>.sort({k: -1})\<close>. The database leaves the order of
  documents with equal keys open; the model fixes one (a stable sort, reversed for
  the descending order).
\<close>

definition sort_asc :: "('a \<Rightarrow> 'k::linorder) \<Rightarrow> 'a list \<Rightarrow> 'a list" where
  "sort_asc k xs = sort_key k xs"

definition sort_desc :: "('a \<Rightarrow> 'k::linorder) \<Rightarrow> 'a list \<Rightarrow> 'a list" where
  "sort_desc k xs = rev (sort_key k xs)"

text \<open>
  \<^verbatim>\<open>.limit(n)\<close>: zero is no limit, and a negative limit returns as many documents
  as its absolute value.
\<close>

definition mongo_limit :: "int \<Rightarrow> 'a list \<Rightarrow> 'a list" where
  "mongo_limit n xs = (if n = 0 then xs else take (nat \<bar>n\<bar>) xs)"


definition error_body :: "string \<Rightarrow> json" where
  "error_body m = JObj [(''error'', JStr m)]"

definition opt_field :: "string \<Rightarrow> ('a \<Rightarrow> json) \<Rightarrow> 'a option \<Rightarrow> (string \<times> json) list" where
  "opt_field k f v = (case v of None \<Rightarrow> [] | Some x \<Rightarrow> [(k, f x)])"

text \<open>The fields of a document as \<^verbatim>\<open>res.json\<close> writes them.\<close>

definition testResult_fields :: "testResult \<Rightarrow> (string \<times> json) list" where
  "testResult_fields r =
     [(''_id'', JObjectId (tr_id r)),
      (''userId'', JObjectId (tr_userId r)),
      (''testType'', JStr (tr_testType r)),
      (''section'', JStr (tr_section r)),
      (''score'', json_number (tr_score r)),
      (''totalQuestions'', json_number (tr_totalQuestions r)),
      (''correctAnswers'', json_number (tr_correctAnswers r)),
      (''timeSpent'', (case tr_timeSpent r of None \<Rightarrow> JNull | Some t \<Rightarrow> json_number t)),
      (''date'', JDate (tr_date r)),
      (''__v'', JNum 0)]"

definition requirements_fields :: "requirements \<Rightarrow> (string \<times> json) list" where
  "requirements_fields r =
     [(''gre'', JBool (gre r)), (''gmat'', JBool (gmat r)),
      (''ielts'', JBool (ielts r)), (''toefl'', JBool (toefl r))]"

definition university_fields :: "university \<Rightarrow> (string \<times> json) list" where
  "university_fields u =
     [(''_id'', JObjectId (uni_id u)),
      (''name'', JStr (uni_name u)),
      (''country'', JStr (uni_country u))]
     @ opt_field ''ranking'' JNum (uni_ranking u)
     @ [(''tuitionFee'', JStr (uni_tuitionFee u)),
        (''scholarships'', JArr (map JStr (uni_scholarships u))),
        (''requirements'', JObj (requirements_fields (uni_requirements u)))]
     @ opt_field ''description'' JStr (uni_description u)
     @ opt_field ''website'' JStr (uni_website u)
     @ [(''__v'', JNum 0)]"

definition question_fields :: "question \<Rightarrow> (string \<times> json) list" where
  "question_fields q =
     [(''_id'', JObjectId (q_id q)),
      (''testType'', JStr (q_testType q)),
      (''section'', JStr (q_section q)),
      (''question'', JStr (q_question q)),
      (''options'', JArr (map JStr (q_options q))),
      (''correctAnswer'', JNum (q_correctAnswer q))]
     @ opt_field ''explanation'' JStr (q_explanation q)
     @ [(''difficulty'', JStr (q_difficulty q)),
        (''__v'', JNum 0)]"

text \<open>\<^verbatim>\<open>.select('-a -b')\<close>: the named paths are left out of every document.\<close>

definition select_minus :: "string list \<Rightarrow> (string \<times> json) list \<Rightarrow> (string \<times> json) list" where
  "select_minus names fs = filter (\<lambda>kv. fst kv \<notin> set names) fs"

text \<open>Reading an object of a response body: its keys, and the value under a key.\<close>

definition has_field :: "string \<Rightarrow> (string \<times> json) list \<Rightarrow> bool" where
  "has_field k fs = (k \<in> fst ` set fs)"

definition get_field :: "string \<Rightarrow> (string \<times> json) list \<Rightarrow> json option" where
  "get_field k fs = map_of fs k"

section \<open>The token guard\<close>

text \<open>
  \<^verbatim>\<open>authHeader && authHeader.split(' ')[1]\<close>, with \<open>None\<close> for every falsy outcome
  (no header, an empty header, no second word, an empty second word).
\<close>

definition header_token :: "string option \<Rightarrow> string option" where
  "header_token authHeader =
     (case authHeader of
        None \<Rightarrow> None
      | Some h \<Rightarrow>
          (if h = [] then None
           else (case split_on (CHR '' '') h of
                   _ # t # _ \<Rightarrow> (if t = [] then None else Some t)
                 | _ \<Rightarrow> None)))"

text \<open>\<^verbatim>\<open>authenticateToken\<close>, lines 85-100; \<open>next\<close> is the route's handler.\<close>

definition authenticateToken ::
  "env \<Rightarrow> string option \<Rightarrow> (claims \<Rightarrow> db \<Rightarrow> response \<times> db) \<Rightarrow> db \<Rightarrow> response \<times> db" where
  "authenticateToken e authHeader next d =
     (case header_token authHeader of
        None \<Rightarrow> (Response 401 (error_body ''Access token required''), d)
      | Some token \<Rightarrow>
          (case jwt_verify e token of
             None \<Rightarrow> (Response 403 (error_body ''Invalid or expired token''), d)
           | Some user \<Rightarrow> next user d))"

section \<open>Accounts\<close>

text \<open>
  The request bodies are read at the types the handlers use them at: a field is a
  string or is missing (\<open>None\<close>). For a password \<open>None\<close> is every value that is not a
  string (the field is missing, or holds a number, an object, \<^verbatim>\<open>null\<close>): bcryptjs
  rejects them alike. The email of a registration or login is a string, since what the
  query does with another value is the database's.
\<close>

record register_body =
  rb_name :: "string option"
  rb_email :: string
  rb_password :: "string option"

record login_body =
  lb_email :: string
  lb_password :: "string option"

text \<open>
  \<^verbatim>\<open>bcrypt.hash(password, 10)\<close> and \<^verbatim>\<open>bcrypt.compare(password, hash)\<close> on the
  password of a request: both reject a password that is not a string.
\<close>

definition hash_password :: "env \<Rightarrow> string option \<Rightarrow> exn + string" where
  "hash_password e password =
     (case password of None \<Rightarrow> Inl IllegalArguments | Some p \<Rightarrow> Inr (bcrypt_hash e p))"

definition compare_password :: "env \<Rightarrow> string option \<Rightarrow> string \<Rightarrow> exn + bool" where
  "compare_password e password h =
     (case password of None \<Rightarrow> Inl IllegalArguments | Some p \<Rightarrow> Inr (bcrypt_compare e p h))"

text \<open>\<^verbatim>\<open>User.findOne({ email })\<close>.\<close>

definition findOne_email :: "string \<Rightarrow> user list \<Rightarrow> user option" where
  "findOne_email email us = find (\<lambda>u. user_email u = email) us"

text \<open>
  \<^verbatim>\<open>new User({ name, email, password })\<close> followed by \<^verbatim>\<open>user.save()\<close>: the
  schema's required paths are validated, the role and the creation date take their
  defaults, and the unique index on the email refuses a second document.
\<close>

definition User_save :: "ctx \<Rightarrow> string option \<Rightarrow> string \<Rightarrow> string \<Rightarrow> db \<Rightarrow> exn + db" where
  "User_save c name email password d =
     (case name of
        None \<Rightarrow> Inl ValidationError
      | Some n \<Rightarrow>
          (if n = [] \<or> email = [] \<or> password = [] then Inl ValidationError
           else if findOne_email email (users d) \<noteq> None then Inl DuplicateKey
           else Inr (d\<lparr>users := users d @
                  [\<lparr>user_id = ctx_oid c, user_name = n, user_email = email,
                    user_password = password, user_role = ''user'',
                    user_createdAt = ctx_now c\<rparr>]\<rparr>)))"

text \<open>\<^verbatim>\<open>app.post('/api/register')\<close>, lines 103-130.\<close>

definition register :: "env \<Rightarrow> ctx \<Rightarrow> register_body \<Rightarrow> db \<Rightarrow> response \<times> db" where
  "register e c body d =
     (case findOne_email (rb_email body) (users d) of
        Some existingUser \<Rightarrow> (Response 400 (error_body ''User already exists''), d)
      | None \<Rightarrow>
          (case hash_password e (rb_password body) of
             Inl err \<Rightarrow> (Response 500 (error_body ''Server error during registration''), d)
           | Inr hashedPassword \<Rightarrow>
               (case User_save c (rb_name body) (rb_email body) hashedPassword d of
                  Inl err \<Rightarrow> (Response 500 (error_body ''Server error during registration''), d)
                | Inr d' \<Rightarrow>
                    (Response 201 (JObj [(''message'', JStr ''User registered successfully'')]),
                     d'))))"

text \<open>\<^verbatim>\<open>app.post('/api/login')\<close>, lines 132-167.\<close>

definition login :: "env \<Rightarrow> login_body \<Rightarrow> db \<Rightarrow> response \<times> db" where
  "login e body d =
     (case findOne_email (lb_email body) (users d) of
        None \<Rightarrow> (Response 400 (error_body ''Invalid credentials''), d)
      | Some user \<Rightarrow>
          (case compare_password e (lb_password body) (user_password user) of
             Inl err \<Rightarrow> (Response 500 (error_body ''Server error during login''), d)
           | Inr isValidPassword \<Rightarrow>
               (if \<not> isValidPassword then (Response 400 (error_body ''Invalid credentials''), d)
                else
                  (let token = jwt_sign e \<lparr>c_userId = user_id user, c_email = user_email user,
                                             c_role = user_role user\<rparr>
                   in (Response 200
                         (JObj [(''token'', JStr token),
                                (''user'', JObj [(''id'', JObjectId (user_id user)),
                                                 (''name'', JStr (user_name user)),
                                                 (''email'', JStr (user_email user)),
                                                 (''role'', JStr (user_role user))])]),
                       d)))))"

section \<open>Test results\<close>

text \<open>
  A field of the body is a value of the schema's type, or is not there (\<open>None\<close>: it is
  missing or \<^verbatim>\<open>null\<close>, which a required path treats alike). The time spent is not
  required, and there the two differ: the field is missing (\<open>None\<close>), is \<^verbatim>\<open>null\<close>
  (\<open>Some None\<close>) or is a number. A number of a body is the double that the JSON parser
  read (\<^verbatim>\<open>1e999\<close> is read as an infinity).
\<close>

record testResult_body =
  trb_testType :: "string option"
  trb_section :: "string option"
  trb_score :: "double option"
  trb_totalQuestions :: "double option"
  trb_correctAnswers :: "double option"
  trb_timeSpent :: "double option option"

text \<open>
  \<^verbatim>\<open>new TestResult({ userId: req.user.userId, ... })\<close> as \<^verbatim>\<open>save\<close> validates it:
  five paths are required, the time spent takes its default 0 when it is missing and
  the date is now. A Number path accepts every number but NaN.
\<close>

definition new_TestResult :: "ctx \<Rightarrow> objectid \<Rightarrow> testResult_body \<Rightarrow> exn + testResult" where
  "new_TestResult c userId body =
     (case (trb_testType body, trb_section body, trb_score body,
            trb_totalQuestions body, trb_correctAnswers body) of
        (Some testType, Some section, Some score, Some totalQuestions, Some correctAnswers) \<Rightarrow>
          (if testType = [] \<or> section = [] then Inl ValidationError
           else if score = NaN \<or> totalQuestions = NaN \<or> correctAnswers = NaN
                   \<or> trb_timeSpent body = Some (Some NaN) then Inl CastError
           else Inr \<lparr>tr_id = ctx_oid c, tr_userId = userId, tr_testType = testType,
                     tr_section = section, tr_score = score,
                     tr_totalQuestions = totalQuestions, tr_correctAnswers = correctAnswers,
                     tr_timeSpent = (case trb_timeSpent body of
                                       None \<Rightarrow> Some (Fin 0)
                                     | Some t \<Rightarrow> t),
                     tr_date = ctx_now c\<rparr>)
      | _ \<Rightarrow> Inl ValidationError)"

text \<open>\<^verbatim>\<open>app.post('/api/test-results')\<close>, lines 170-189.\<close>

definition post_test_results ::
  "env \<Rightarrow> ctx \<Rightarrow> string option \<Rightarrow> testResult_body \<Rightarrow> db \<Rightarrow> response \<times> db" where
  "post_test_results e c authHeader body =
     authenticateToken e authHeader (\<lambda>user d.
       case new_TestResult c (c_userId user) body of
         Inl err \<Rightarrow> (Response 500 (error_body ''Error saving test result''), d)
       | Inr testResult \<Rightarrow>
           (Response 201 (JObj [(''message'', JStr ''Test result saved successfully''),
                                (''result'', JObj (testResult_fields testResult))]),
            d\<lparr>testResults := testResults d @ [testResult]\<rparr>))"

text \<open>\<^verbatim>\<open>TestResult.find({ userId })\<close>.\<close>

definition find_results :: "objectid \<Rightarrow> db \<Rightarrow> testResult list" where
  "find_results userId d = filter (\<lambda>r. tr_userId r = userId) (testResults d)"

text \<open>\<^verbatim>\<open>app.get('/api/test-results')\<close>, lines 191-200.\<close>

definition get_test_results :: "env \<Rightarrow> string option \<Rightarrow> db \<Rightarrow> response \<times> db" where
  "get_test_results e authHeader =
     authenticateToken e authHeader (\<lambda>user d.
       (let results = mongo_limit 10 (sort_desc tr_date (find_results (c_userId user) d))
        in (Response 200 (JArr (map (\<lambda>r. JObj (testResult_fields r)) results)), d)))"

text \<open>
  \<^verbatim>\<open>app.get('/api/dashboard-stats')\<close>, lines 202-223. The two \<^verbatim>\<open>reduce\<close> calls add
  doubles from the left, starting at 0.
\<close>

definition get_dashboard_stats :: "env \<Rightarrow> string option \<Rightarrow> db \<Rightarrow> response \<times> db" where
  "get_dashboard_stats e authHeader =
     authenticateToken e authHeader (\<lambda>user d.
       (let userId = c_userId user;
            totalTests = length (find_results userId d);
            results = find_results userId d;
            avgScore = (if length results > 0
                        then div_count
                               (foldl (\<lambda>sum result. dadd sum (tr_score result)) (Fin 0) results)
                               (length results)
                        else Fin 0);
            totalStudyTime =
              foldl (\<lambda>sum result. dadd sum (or_zero (tr_timeSpent result))) (Fin 0) results
        in (Response 200
              (JObj [(''testsCompleted'', JNum (of_nat totalTests)),
                     (''averageScore'', json_number (Math_round avgScore)),
                     (''totalStudyTime'', json_number (Math_round totalStudyTime))]),
            d)))"

section \<open>Universities\<close>

text \<open>
  A parameter of the query string, as the query parser of Express gives it and as
  Mongoose reads it when it casts the filter. The parser gives a string, or an array
  (\<^verbatim>\<open>country=a&country=b\<close>) or an object (\<^verbatim>\<open>country[$ne]=USA\<close>); the handler puts
  what it gets into the filter unchecked. An array or an object stands for what the
  cast makes of it (\<open>QCast\<close>), or is rejected by the cast (\<open>QRejected\<close>). For the
  country the cast gives a condition on the country: the operator object
  \<^verbatim>\<open>{"$ne": "USA"}\<close> is the condition of being different from \<^verbatim>\<open>USA\<close>. For the
  search, which is the operand of \<^verbatim>\<open>$regex\<close>, the cast gives a string.
\<close>

datatype 'a query_param = QString string | QCast 'a | QRejected

record universities_query =
  uq_country :: "(string \<Rightarrow> bool) query_param option"
  uq_search :: "string query_param option"

record university_body =
  ub_name :: "string option"
  ub_country :: "string option"
  ub_ranking :: "rat option"
  ub_tuitionFee :: "string option"
  ub_scholarships :: "string list"
  ub_requirements :: requirements
  ub_description :: "string option"
  ub_website :: "string option"

text \<open>
  \<^verbatim>\<open>if (country) filter.country = country\<close>: no filter when the parameter is
  falsy (missing or the empty string); an exact match on a string; the condition that
  an array or an object denotes.
\<close>

definition country_filter ::
  "(string \<Rightarrow> bool) query_param option \<Rightarrow> exn + (string \<Rightarrow> bool)" where
  "country_filter country =
     (case country of
        None \<Rightarrow> Inr (\<lambda>v. True)
      | Some (QString c) \<Rightarrow> Inr (if c = [] then (\<lambda>v. True) else (\<lambda>v. v = c))
      | Some (QCast condition) \<Rightarrow> Inr condition
      | Some QRejected \<Rightarrow> Inl CastError)"

text \<open>\<^verbatim>\<open>{ $regex: search, $options: 'i' }\<close> as the database reads it.\<close>

definition regex_filter :: "env \<Rightarrow> string \<Rightarrow> exn + (string \<Rightarrow> bool)" where
  "regex_filter e pattern =
     (case regex_compile_i e pattern of
        None \<Rightarrow> Inl RegexError
      | Some matches \<Rightarrow> Inr matches)"

text \<open>
  \<^verbatim>\<open>if (search) filter.name = { $regex: search, $options: 'i' }\<close>: no filter when the
  parameter is falsy; otherwise the parameter is handed to the database as a regular
  expression.
\<close>

definition name_filter :: "env \<Rightarrow> string query_param option \<Rightarrow> exn + (string \<Rightarrow> bool)" where
  "name_filter e search =
     (case search of
        None \<Rightarrow> Inr (\<lambda>v. True)
      | Some (QString s) \<Rightarrow> (if s = [] then Inr (\<lambda>v. True) else regex_filter e s)
      | Some (QCast s) \<Rightarrow> regex_filter e s
      | Some QRejected \<Rightarrow> Inl CastError)"

text \<open>
  \<^verbatim>\<open>app.get('/api/universities')\<close>, lines 226-241. A filter that the database
  rejects makes \<^verbatim>\<open>find\<close> throw, and the \<^verbatim>\<open>catch\<close> answers.
\<close>

definition get_universities :: "env \<Rightarrow> universities_query \<Rightarrow> db \<Rightarrow> response \<times> db" where
  "get_universities e q d =
     (case country_filter (uq_country q) of
        Inl err \<Rightarrow> (Response 500 (error_body ''Error fetching universities''), d)
      | Inr country_ok \<Rightarrow>
          (case name_filter e (uq_search q) of
             Inl err \<Rightarrow> (Response 500 (error_body ''Error fetching universities''), d)
           | Inr name_ok \<Rightarrow>
               (let found = sort_asc uni_ranking
                      (filter (\<lambda>u. country_ok (uni_country u) \<and> name_ok (uni_name u))
                         (universities d))
                in (Response 200 (JArr (map (\<lambda>u. JObj (university_fields u)) found)), d))))"

text \<open>
  \<^verbatim>\<open>new University(req.body)\<close> as \<^verbatim>\<open>save\<close> validates it: the name, the country
  and the tuition fee are required.
\<close>

definition new_University :: "ctx \<Rightarrow> university_body \<Rightarrow> exn + university" where
  "new_University c body =
     (case (ub_name body, ub_country body, ub_tuitionFee body) of
        (Some name, Some country, Some tuitionFee) \<Rightarrow>
          (if name = [] \<or> country = [] \<or> tuitionFee = [] then Inl ValidationError
           else Inr \<lparr>uni_id = ctx_oid c, uni_name = name, uni_country = country,
                     uni_ranking = ub_ranking body, uni_tuitionFee = tuitionFee,
                     uni_scholarships = ub_scholarships body,
                     uni_requirements = ub_requirements body,
                     uni_description = ub_description body,
                     uni_website = ub_website body\<rparr>)
      | _ \<Rightarrow> Inl ValidationError)"

text \<open>\<^verbatim>\<open>app.post('/api/universities')\<close>, lines 243-256.\<close>

definition post_universities ::
  "env \<Rightarrow> ctx \<Rightarrow> string option \<Rightarrow> university_body \<Rightarrow> db \<Rightarrow> response \<times> db" where
  "post_universities e c authHeader body =
     authenticateToken e authHeader (\<lambda>user d.
       if c_role user \<noteq> ''admin'' then (Response 403 (error_body ''Admin access required''), d)
       else
         (case new_University c body of
            Inl err \<Rightarrow> (Response 500 (error_body ''Error adding university''), d)
          | Inr university \<Rightarrow>
              (Response 201 (JObj [(''message'', JStr ''University added successfully''),
                                   (''university'', JObj (university_fields university))]),
               d\<lparr>universities := universities d @ [university]\<rparr>)))"

section \<open>Questions\<close>

text \<open>
  The limit parameter is read at the integer \<^verbatim>\<open>parseInt\<close> gives (\<open>None\<close> when the
  request has none and the default applies); the ObjectId of a question orders the
  questions by creation.
\<close>

record questions_query =
  qq_limit :: "int option"
  qq_difficulty :: "string option"

definition difficulty_filter :: "string option \<Rightarrow> string \<Rightarrow> bool" where
  "difficulty_filter difficulty v =
     (case difficulty of None \<Rightarrow> True | Some x \<Rightarrow> (if x = [] then True else v = x))"

text \<open>\<^verbatim>\<open>Question.find(filter)\<close> with the sort and the limit of the handler.\<close>

definition find_questions :: "string \<Rightarrow> string \<Rightarrow> questions_query \<Rightarrow> db \<Rightarrow> question list" where
  "find_questions testType section q d =
     (let limit = (case qq_limit q of None \<Rightarrow> 10 | Some n \<Rightarrow> n)
      in mongo_limit limit
           (sort_desc q_id
              (filter (\<lambda>x. q_testType x = testType \<and> q_section x = section \<and>
                            difficulty_filter (qq_difficulty q) (q_difficulty x))
                 (questions d))))"

text \<open>\<^verbatim>\<open>app.get('/api/questions/:testType/:section')\<close>, lines 259-276.\<close>

definition get_questions :: "string \<Rightarrow> string \<Rightarrow> questions_query \<Rightarrow> db \<Rightarrow> response \<times> db" where
  "get_questions testType section q d =
     (Response 200
        (JArr (map (\<lambda>x. JObj (select_minus [''correctAnswer'', ''explanation''] (question_fields x)))
                 (find_questions testType section q d))),
      d)"

text \<open>
  The handler passes \<^verbatim>\<open>req.body.questionId\<close> to the query unchecked, so the id of a
  request is any JSON value, read here as Mongoose reads it when it casts the filter on
  \<^verbatim>\<open>_id\<close>: missing or \<^verbatim>\<open>null\<close> (\<open>None\<close>); a value that casts to an ObjectId; an
  object of query operators (such as \<^verbatim>\<open>{"$ne": null}\<close>), which the query takes as
  the condition on the id that it denotes; or a value that casts to neither (such as
  the string \<^verbatim>\<open>abc\<close>), kept as it came.
\<close>

datatype id_value = ObjectId objectid | IdCondition "objectid \<Rightarrow> bool" | NotObjectId json

record check_answer_body =
  ca_questionId :: "id_value option"
  ca_userAnswer :: "json option"

text \<open>
  \<^verbatim>\<open>Question.findById(questionId)\<close>, which is \<^verbatim>\<open>findOne({ _id: questionId })\<close>: a
  missing id finds nothing, a condition finds a question that meets it (the first one
  here; the database leaves open which), and an id that does not cast rejects the
  query.
\<close>

definition findById :: "id_value option \<Rightarrow> question list \<Rightarrow> exn + question option" where
  "findById questionId qs =
     (case questionId of
        None \<Rightarrow> Inr None
      | Some (ObjectId i) \<Rightarrow> Inr (find (\<lambda>x. q_id x = i) qs)
      | Some (IdCondition P) \<Rightarrow> Inr (find (\<lambda>x. P (q_id x)) qs)
      | Some (NotObjectId v) \<Rightarrow> Inl CastError)"

text \<open>
  \<^verbatim>\<open>app.post('/api/check-answer')\<close>, lines 278-297. The answer of a request is any
  JSON value or is missing; \<^verbatim>\<open>===\<close> holds when it is the number stored (a JSON
  number of a request is the double that the parser read). A question without an
  explanation gives a body without one.
\<close>

definition check_answer :: "check_answer_body \<Rightarrow> db \<Rightarrow> response \<times> db" where
  "check_answer body d =
     (case findById (ca_questionId body) (questions d) of
        Inl err \<Rightarrow> (Response 500 (error_body ''Error checking answer''), d)
      | Inr None \<Rightarrow> (Response 404 (error_body ''Question not found''), d)
      | Inr (Some question) \<Rightarrow>
          (let isCorrect = (ca_userAnswer body = Some (JNum (q_correctAnswer question)))
           in (Response 200
                 (JObj ([(''correct'', JBool isCorrect),
                         (''correctAnswer'', JNum (q_correctAnswer question))]
                        @ opt_field ''explanation'' JStr (q_explanation question))),
               d)))"

section \<open>The routes\<close>

datatype route =
    PostRegister register_body
  | PostLogin login_body
  | PostTestResults testResult_body
  | GetTestResults
  | GetDashboardStats
  | GetUniversities universities_query
  | PostUniversities university_body
  | GetQuestions string string questions_query
  | PostCheckAnswer check_answer_body

record request =
  req_authorization :: "string option"
  req_route :: route

text \<open>The routes registered with \<^verbatim>\<open>authenticateToken\<close> (lines 170, 191, 202 and 243).\<close>

fun protected :: "route \<Rightarrow> bool" where
  "protected (PostTestResults b) = True"
| "protected GetTestResults = True"
| "protected GetDashboardStats = True"
| "protected (PostUniversities b) = True"
| "protected r = False"

definition app :: "env \<Rightarrow> ctx \<Rightarrow> request \<Rightarrow> db \<Rightarrow> response \<times> db" where
  "app e c req d =
     (case req_route req of
        PostRegister b \<Rightarrow> register e c b d
      | PostLogin b \<Rightarrow> login e b d
      | PostTestResults b \<Rightarrow> post_test_results e c (req_authorization req) b d
      | GetTestResults \<Rightarrow> get_test_results e (req_authorization req) d
      | GetDashboardStats \<Rightarrow> get_dashboard_stats e (req_authorization req) d
      | GetUniversities q \<Rightarrow> get_universities e q d
      | PostUniversities b \<Rightarrow> post_universities e c (req_authorization req) b d
      | GetQuestions testType section q \<Rightarrow> get_questions testType section q d
      | PostCheckAnswer b \<Rightarrow> check_answer b d)"

section \<open>Case-insensitive search\<close>

text \<open>
  The claim about the name search speaks of a case-insensitive substring; the handler
  asks for a regular expression. \<open>contains_ci\<close> is the substring reading (ASCII case
  folding). \<open>regex_dot_i\<close> is the engine of the sample: it reads the patterns built
  from literal characters and the dot as the database does (a literal character stands
  for itself in either case, a dot for any character but a line feed, and the pattern
  may match anywhere in the subject) and refuses every other pattern. The theorems
  hold for every engine; this one is where they are evaluated.
\<close>

definition to_lower :: "char \<Rightarrow> char" where
  "to_lower c = (let n = (of_char c :: nat) in if 65 \<le> n \<and> n \<le> 90 then char_of (n + 32) else c)"

definition contains_ci :: "string \<Rightarrow> string \<Rightarrow> bool" where
  "contains_ci p s = sublist (map to_lower p) (map to_lower s)"

definition metachars :: "char list" where
  "metachars = [CHR 0x5C, CHR ''^'', CHR ''$'', CHR ''.'', CHR ''|'', CHR ''?'', CHR ''*'',
                CHR ''+'', CHR ''('', CHR '')'', CHR ''['', CHR '']'', CHR ''{'', CHR ''}'']"

definition literal_pattern :: "string \<Rightarrow> bool" where
  "literal_pattern p = list_all (\<lambda>c. c \<notin> set metachars) p"

fun match_here :: "string \<Rightarrow> string \<Rightarrow> bool" where
  "match_here [] s = True"
| "match_here (p # ps) [] = False"
| "match_here (p # ps) (c # cs) =
     ((if p = CHR ''.'' then c \<noteq> CHR 0x0A else to_lower p = to_lower c) \<and> match_here ps cs)"

fun search_from :: "string \<Rightarrow> string \<Rightarrow> bool" where
  "search_from p [] = match_here p []"
| "search_from p (c # cs) = (match_here p (c # cs) \<or> search_from p cs)"

definition regex_dot_i :: "string \<Rightarrow> (string \<Rightarrow> bool) option" where
  "regex_dot_i p =
     (if list_all (\<lambda>c. c = CHR ''.'' \<or> c \<notin> set metachars) p then Some (search_from p) else None)"

section \<open>A concrete instance\<close>

text \<open>
  Stand-ins for the libraries, and a database holding the universities and questions of
  \<^verbatim>\<open>/api/seed-data\<close> (lines 303-358), three accounts and three test results. The
  theorems below hold for every instance; this one is where they are evaluated.
\<close>

definition sample_verify :: "string \<Rightarrow> claims option" where
  "sample_verify t =
     (if t = ''root-token'' then Some \<lparr>c_userId = 10, c_email = ''root@example.com'', c_role = ''admin''\<rparr>
      else if t = ''alice-token'' then Some \<lparr>c_userId = 11, c_email = ''alice@example.com'', c_role = ''user''\<rparr>
      else if t = ''bob-token'' then Some \<lparr>c_userId = 12, c_email = ''bob@example.com'', c_role = ''user''\<rparr>
      else None)"

definition sample_env :: env where
  "sample_env =
     \<lparr>bcrypt_hash = (\<lambda>p. ''$2a$10$'' @ p),
      bcrypt_compare = (\<lambda>p h. h = ''$2a$10$'' @ p),
      jwt_sign = (\<lambda>c. c_role c @ '':'' @ c_email c),
      jwt_verify = sample_verify,
      regex_compile_i = regex_dot_i\<rparr>"

definition sample_users :: "user list" where
  "sample_users =
     [\<lparr>user_id = 10, user_name = ''Root'', user_email = ''root@example.com'',
       user_password = ''$2a$10$root-pw'', user_role = ''admin'', user_createdAt = 100\<rparr>,
      \<lparr>user_id = 11, user_name = ''Alice'', user_email = ''alice@example.com'',
       user_password = ''$2a$10$alice-pw'', user_role = ''user'', user_createdAt = 200\<rparr>,
      \<lparr>user_id = 12, user_name = ''Bob'', user_email = ''bob@example.com'',
       user_password = ''$2a$10$bob-pw'', user_role = ''user'', user_createdAt = 300\<rparr>]"

definition sample_results :: "testResult list" where
  "sample_results =
     [\<lparr>tr_id = 20, tr_userId = 11, tr_testType = ''GRE'', tr_section = ''Verbal'',
       tr_score = Fin 80, tr_totalQuestions = Fin 10, tr_correctAnswers = Fin 8,
       tr_timeSpent = Some (Fin 30),
       tr_date = 1000\<rparr>,
      \<lparr>tr_id = 21, tr_userId = 12, tr_testType = ''GRE'', tr_section = ''Verbal'',
       tr_score = Fin 50, tr_totalQuestions = Fin 10, tr_correctAnswers = Fin 5,
       tr_timeSpent = Some (Fin 20),
       tr_date = 1500\<rparr>,
      \<lparr>tr_id = 22, tr_userId = 11, tr_testType = ''GRE'', tr_section = ''Quantitative'',
       tr_score = Fin 90, tr_totalQuestions = Fin 10, tr_correctAnswers = Fin 9,
       tr_timeSpent = Some (Fin (3 / 2)),
       tr_date = 2000\<rparr>]"

definition sample_universities :: "university list" where
  "sample_universities =
     [\<lparr>uni_id = 1, uni_name = ''Harvard University'', uni_country = ''USA'',
       uni_ranking = Some 1, uni_tuitionFee = ''$54,002/year'',
       uni_scholarships = [''Need-based aid up to $75,000'', ''Merit scholarships''],
       uni_requirements = \<lparr>gre = True, gmat = False, ielts = False, toefl = True\<rparr>,
       uni_description = Some ''Ivy League university in Cambridge, Massachusetts'',
       uni_website = Some ''https://harvard.edu''\<rparr>,
      \<lparr>uni_id = 2, uni_name = ''Stanford University'', uni_country = ''USA'',
       uni_ranking = Some 2, uni_tuitionFee = ''$56,169/year'',
       uni_scholarships = [''Knight-Hennessy Scholars Program'', ''Stanford Graduate Fellowship''],
       uni_requirements = \<lparr>gre = True, gmat = False, ielts = False, toefl = True\<rparr>,
       uni_description = Some ''Private research university in California'',
       uni_website = Some ''https://stanford.edu''\<rparr>,
      \<lparr>uni_id = 3, uni_name = ''Oxford University'', uni_country = ''UK'',
       uni_ranking = Some 3, uni_tuitionFee = CHR 0xC2 # CHR 0xA3 # ''28,370/year'',
       uni_scholarships = [''Rhodes Scholarship'', ''Clarendon Fund''],
       uni_requirements = \<lparr>gre = False, gmat = False, ielts = True, toefl = False\<rparr>,
       uni_description = Some ''Collegiate research university in Oxford, England'',
       uni_website = Some ''https://ox.ac.uk''\<rparr>]"

definition sample_questions :: "question list" where
  "sample_questions =
     [\<lparr>q_id = 4, q_testType = ''GRE'', q_section = ''Verbal'',
       q_question = ''The speaker's argument was so _______ that even her most ardent supporters began to question her position.'',
       q_options = [''compelling'', ''persuasive'', ''unconvincing'', ''articulate''],
       q_correctAnswer = 2,
       q_explanation = Some ''The context suggests supporters are questioning her position, indicating the argument was unconvincing.'',
       q_difficulty = ''medium''\<rparr>,
      \<lparr>q_id = 5, q_testType = ''GRE'', q_section = ''Quantitative'',
       q_question = ''If x + y = 10 and x - y = 4, what is the value of x?'',
       q_options = [''3'', ''5'', ''7'', ''9''],
       q_correctAnswer = 2,
       q_explanation = Some ''Solving the system: x + y = 10, x - y = 4. Adding equations: 2x = 14, so x = 7.'',
       q_difficulty = ''easy''\<rparr>]"

text \<open>Twelve questions of one test type and section, to see a limit cut.\<close>

definition twelve_questions :: "question list" where
  "twelve_questions =
     map (\<lambda>i. \<lparr>q_id = i, q_testType = ''GRE'', q_section = ''Verbal'',
                q_question = ''Pick the synonym.'', q_options = [''a'', ''b'', ''c'', ''d''],
                q_correctAnswer = 1, q_explanation = None, q_difficulty = ''medium''\<rparr>)
       [1, 2, 3, 4, 5, 6, 7, 8, 9, 10, 11, 12]"

definition sample_db :: db where
  "sample_db = \<lparr>users = sample_users, testResults = sample_results,
                 universities = sample_universities, questions = sample_questions\<rparr>"

definition sample_ctx :: ctx where
  "sample_ctx = \<lparr>ctx_now = 5000, ctx_oid = 30\<rparr>"


definition sample_result_body :: testResult_body where
  "sample_result_body =
     \<lparr>trb_testType = Some ''GRE'', trb_section = Some ''Verbal'', trb_score = Some (Fin 100),
      trb_totalQuestions = Some (Fin 1), trb_correctAnswers = Some (Fin 1),
      trb_timeSpent = Some (Some (Fin 2))\<rparr>"


section \<open>Facts about the numbers\<close>

lemma bit_length_bounds:
  "0 < n \<Longrightarrow> 1 \<le> bit_length n \<and> 2 ^ nat (bit_length n - 1) \<le> n \<and> n < 2 ^ nat (bit_length n)"
proof (induction n rule: bit_length.induct)
  case (1 n)
  show ?case
  proof (cases "n div 2 = 0")
    case True
    with 1(2) have n1: "n = 1" by presburger
    have "bit_length 1 = 1"
      by (simp add: bit_length.simps [of 1] bit_length.simps [of 0])
    with n1 show ?thesis by simp
  next
    case False
    with 1(2) have m: "0 < n div 2" by presburger
    from 1(1) [OF _ m] 1(2)
    have ih: "1 \<le> bit_length (n div 2)"
      "2 ^ nat (bit_length (n div 2) - 1) \<le> n div 2"
      "n div 2 < 2 ^ nat (bit_length (n div 2))"
      by auto
    have bl: "bit_length n = 1 + bit_length (n div 2)"
      using 1(2) by (simp add: bit_length.simps [of n])
    have e1: "nat (bit_length n - 1) = Suc (nat (bit_length (n div 2) - 1))"
      using bl ih(1) by simp
    have e2: "nat (bit_length n) = Suc (nat (bit_length (n div 2)))"
      using bl ih(1) by simp
    have "2 * (n div 2) \<le> n" and "n < 2 * (n div 2) + 2" by presburger+
    with ih show ?thesis
      unfolding e1 e2 using bl by simp
  qed
qed

lemma bit_length_rat:
  assumes "0 < n"
  shows "2 powi (bit_length n - 1) \<le> (of_int n :: rat)" and "(of_int n :: rat) < 2 powi (bit_length n)"
proof -
  from bit_length_bounds [OF assms]
  have b: "1 \<le> bit_length n" "2 ^ nat (bit_length n - 1) \<le> n" "n < 2 ^ nat (bit_length n)"
    by auto
  have "(2 :: rat) powi (bit_length n - 1) = 2 ^ nat (bit_length n - 1)"
    using b(1) by (simp add: power_int_def)
  also have "\<dots> = of_int (2 ^ nat (bit_length n - 1))" by simp
  also have "\<dots> \<le> of_int n" using b(2) by (simp only: of_int_le_iff)
  finally show "2 powi (bit_length n - 1) \<le> (of_int n :: rat)" .
  have "(of_int n :: rat) < of_int (2 ^ nat (bit_length n))"
    using b(3) by (simp only: of_int_less_iff)
  also have "\<dots> = 2 ^ nat (bit_length n)" by simp
  also have "\<dots> = 2 powi (bit_length n)"
    using b(1) by (simp add: power_int_def)
  finally show "(of_int n :: rat) < 2 powi (bit_length n)" .
qed

lemma floor_log2_bounds:
  assumes "0 < x"
  shows "2 powi (floor_log2 x) \<le> x" and "x < 2 powi (floor_log2 x + 1)"
proof -
  obtain p q where pq: "quotient_of x = (p, q)" by (cases "quotient_of x")
  then have q: "0 < q" and x: "x = of_int p / of_int q"
    by (simp_all add: quotient_of_denom_pos quotient_of_div)
  with assms have p: "0 < p"
    by (simp add: zero_less_divide_iff)
  let ?c = "bit_length p - bit_length q"
  have fl: "floor_log2 x = (if 2 powi ?c \<le> x then ?c else ?c - 1)"
    by (simp add: floor_log2_def pq)
  have qpos: "(0 :: rat) < of_int q" using q by simp
  have up: "x < 2 powi (?c + 1)"
  proof -
    have "of_int p < (2 :: rat) powi (bit_length p)" by (rule bit_length_rat [OF p])
    moreover have "(2 :: rat) powi (bit_length q - 1) \<le> of_int q" by (rule bit_length_rat [OF q])
    moreover have "(2 :: rat) powi (?c + 1) * 2 powi (bit_length q - 1) = 2 powi (bit_length p)"
      by (simp flip: power_int_add)
    ultimately have "of_int p < (2 :: rat) powi (?c + 1) * of_int q"
    proof -
      assume a: "of_int p < (2 :: rat) powi (bit_length p)"
        and b: "(2 :: rat) powi (bit_length q - 1) \<le> of_int q"
        and c: "(2 :: rat) powi (?c + 1) * 2 powi (bit_length q - 1) = 2 powi (bit_length p)"
      have "(2 :: rat) powi (?c + 1) * 2 powi (bit_length q - 1) \<le> 2 powi (?c + 1) * of_int q"
        using b by (intro mult_left_mono) auto
      with a c show ?thesis by simp
    qed
    then show ?thesis using qpos by (simp add: x pos_divide_less_eq)
  qed
  have lo: "2 powi (?c - 1) \<le> x"
  proof -
    have "(2 :: rat) powi (bit_length p - 1) \<le> of_int p" by (rule bit_length_rat [OF p])
    moreover have "of_int q < (2 :: rat) powi (bit_length q)" by (rule bit_length_rat [OF q])
    moreover have "(2 :: rat) powi (?c - 1) * 2 powi (bit_length q) = 2 powi (bit_length p - 1)"
      by (simp flip: power_int_add)
    ultimately have "(2 :: rat) powi (?c - 1) * of_int q \<le> of_int p"
    proof -
      assume a: "(2 :: rat) powi (bit_length p - 1) \<le> of_int p"
        and b: "of_int q < (2 :: rat) powi (bit_length q)"
        and c: "(2 :: rat) powi (?c - 1) * 2 powi (bit_length q) = 2 powi (bit_length p - 1)"
      have "(2 :: rat) powi (?c - 1) * of_int q \<le> 2 powi (?c - 1) * 2 powi (bit_length q)"
        using b by (intro mult_left_mono) auto
      with a c show ?thesis by simp
    qed
    then show ?thesis using qpos by (simp add: x pos_le_divide_eq)
  qed
  show "2 powi (floor_log2 x) \<le> x" using lo by (simp add: fl)
  show "x < 2 powi (floor_log2 x + 1)" using up by (auto simp: fl not_le)
qed

lemma floor_log2_less:
  assumes "0 < x" "x < 2 powi k"
  shows "floor_log2 x < k"
proof (rule ccontr)
  assume "\<not> floor_log2 x < k"
  then have "k \<le> floor_log2 x" by simp
  then have "(2 :: rat) powi k \<le> 2 powi (floor_log2 x)"
    by (intro power_int_increasing) auto
  with floor_log2_bounds(1) [OF assms(1)] assms(2) show False by simp
qed

lemma floor_log2_ge:
  assumes "0 < x" "2 powi k \<le> x"
  shows "k \<le> floor_log2 x"
proof (rule ccontr)
  assume "\<not> k \<le> floor_log2 x"
  then have "floor_log2 x + 1 \<le> k" by simp
  then have "(2 :: rat) powi (floor_log2 x + 1) \<le> 2 powi k"
    by (intro power_int_increasing) auto
  with floor_log2_bounds(2) [OF assms(1)] assms(2) show False by simp
qed

lemma round_half_even_near: "\<bar>of_int (round_half_even m) - m\<bar> \<le> 1 / 2"
proof -
  have a: "of_int \<lfloor>m\<rfloor> \<le> m" "m < of_int \<lfloor>m\<rfloor> + 1" by linarith+
  show ?thesis
    unfolding round_half_even_def Let_def using a by (simp add: abs_le_iff)
qed

lemma round_half_even_of_int: "round_half_even (of_int k) = k"
  by (simp add: round_half_even_def)

lemma round_double_exact:
  assumes "x / 2 powi (ulp_exponent x) = of_int k" and "\<bar>x\<bar> < 2 ^ 1024"
  shows "round_double x = Fin x"
proof (cases "x = 0")
  case True
  then show ?thesis by (simp add: round_double_def)
next
  case False
  have pos: "(0 :: rat) < 2 powi (ulp_exponent x)" by simp
  have "round_half_even (x / 2 powi (ulp_exponent x)) = k"
    by (simp only: assms(1) round_half_even_of_int)
  then have "of_int (round_half_even (x / 2 powi (ulp_exponent x))) * 2 powi (ulp_exponent x)
      = (x / 2 powi (ulp_exponent x)) * 2 powi (ulp_exponent x)"
    by (simp only: assms(1))
  also have "\<dots> = x" using pos by simp
  finally have "of_int (round_half_even (x / 2 powi (ulp_exponent x))) * 2 powi (ulp_exponent x) = x" .
  with False assms(2) show ?thesis
    by (simp add: round_double_def Let_def abs_less_iff not_le)
qed

lemma round_double_error:
  assumes "x \<noteq> 0" and "\<bar>x\<bar> < 2 ^ 53"
  shows "\<exists>y. round_double x = Fin y \<and> \<bar>y - x\<bar> \<le> 2 powi (ulp_exponent x) / 2"
proof -
  let ?P = "(2 :: rat) powi (ulp_exponent x)"
  let ?y = "of_int (round_half_even (x / ?P)) * ?P"
  have pos: "0 < ?P" by simp
  have "\<bar>of_int (round_half_even (x / ?P)) - x / ?P\<bar> * ?P \<le> (1 / 2) * ?P"
    by (intro mult_right_mono round_half_even_near) simp
  moreover have "\<bar>of_int (round_half_even (x / ?P)) - x / ?P\<bar> * ?P = \<bar>?y - x\<bar>"
  proof -
    have "\<bar>of_int (round_half_even (x / ?P)) - x / ?P\<bar> * ?P
        = \<bar>(of_int (round_half_even (x / ?P)) - x / ?P) * ?P\<bar>"
      using pos by (simp add: abs_mult)
    also have "(of_int (round_half_even (x / ?P)) - x / ?P) * ?P = ?y - x"
      using pos by (simp add: algebra_simps)
    finally show ?thesis .
  qed
  ultimately have err: "\<bar>?y - x\<bar> \<le> ?P / 2" by simp
  have xpos: "0 < \<bar>x\<bar>" using assms(1) by simp
  have "\<bar>x\<bar> < 2 powi 53" using assms(2) by simp
  then have "floor_log2 \<bar>x\<bar> < 53" by (rule floor_log2_less [OF xpos])
  then have "ulp_exponent x \<le> 0" by (simp add: ulp_exponent_def)
  then have "?P \<le> 2 powi 0" by (intro power_int_increasing) auto
  then have P1: "?P \<le> 1" by simp
  have "\<bar>?y\<bar> \<le> \<bar>x\<bar> + ?P / 2" using err by linarith
  also have "\<dots> < 2 ^ 53 + 1" using assms(2) P1 by linarith
  also have "\<dots> < (2 :: rat) ^ 1024" by simp
  finally have "\<bar>?y\<bar> < 2 ^ 1024" .
  then have "round_double x = Fin ?y"
    using assms(1) by (simp add: round_double_def Let_def abs_less_iff not_le)
  with err show ?thesis by blast
qed

lemma ulp_exponent_le:
  assumes "x \<noteq> 0" and "\<bar>x\<bar> < 2 powi (53 - int j)" and "j \<le> 1074"
  shows "ulp_exponent x \<le> - int j"
proof -
  have "0 < \<bar>x\<bar>" using assms(1) by simp
  from floor_log2_less [OF this assms(2)] assms(3) show ?thesis
    by (simp add: ulp_exponent_def)
qed

lemma round_double_dyadic:
  assumes "x = of_int a / 2 ^ j" and "\<bar>x\<bar> < 2 powi (53 - int j)" and "j \<le> 52"
  shows "round_double x = Fin x"
proof (cases "x = 0")
  case True
  then show ?thesis by (simp add: round_double_def)
next
  case False
  have q: "ulp_exponent x \<le> - int j"
    using ulp_exponent_le [OF False assms(2)] assms(3) by simp
  define i where "i = nat (- ulp_exponent x) - j"
  have nq: "nat (- ulp_exponent x) = i + j"
    using q by (simp add: i_def)
  have "(2 :: rat) powi (- ulp_exponent x) = 2 ^ nat (- ulp_exponent x)"
    using q by (simp add: power_int_def)
  then have "(2 :: rat) powi (ulp_exponent x) = inverse (2 ^ (i + j))"
    using power_int_minus [of "2 :: rat" "- ulp_exponent x"] by (simp add: nq)
  then have "x / 2 powi (ulp_exponent x) = of_int a / 2 ^ j * 2 ^ (i + j)"
    by (simp add: assms(1) divide_inverse)
  also have "\<dots> = of_int (a * 2 ^ i)"
    by (simp add: power_add)
  finally have ex: "x / 2 powi (ulp_exponent x) = of_int (a * 2 ^ i)" .
  have "(2 :: rat) powi (53 - int j) \<le> 2 powi 1024"
    by (intro power_int_increasing) auto
  with assms(2) have "\<bar>x\<bar> < 2 ^ 1024" by simp
  with ex show ?thesis by (rule round_double_exact)
qed

lemma round_double_of_int:
  assumes "\<bar>k\<bar> < 2 ^ 53"
  shows "round_double (of_int k) = Fin (of_int k)"
proof -
  have "\<bar>of_int k :: rat\<bar> < 2 ^ 53"
    using assms by (metis of_int_abs of_int_less_iff of_int_numeral of_int_power)
  then show ?thesis
    using round_double_dyadic [of "of_int k" k 0] by simp
qed

lemma whole_of_int: "whole x \<longleftrightarrow> (\<exists>a. x = Fin (of_int a))"
proof (cases x)
  case (Fin r)
  show ?thesis by (auto simp: Fin whole_def elim: Ints_cases)
qed (simp_all add: whole_def)

lemma dadd_whole:
  assumes "whole x" "whole y" "magnitude x + magnitude y < 2 ^ 53"
  shows "dadd x y = Fin (value_of x + value_of y)"
    and "whole (dadd x y)"
    and "magnitude (dadd x y) \<le> magnitude x + magnitude y"
proof -
  from assms(1) obtain a where x: "x = Fin (of_int a)"
    by (auto simp: whole_of_int)
  from assms(2) obtain b where y: "y = Fin (of_int b)"
    by (auto simp: whole_of_int)
  from assms(3) have "\<bar>of_int a :: rat\<bar> + \<bar>of_int b\<bar> < 2 ^ 53"
    by (simp add: x y magnitude_def)
  then have "\<bar>of_int (a + b) :: rat\<bar> < of_int (2 ^ 53)" by simp
  then have "\<bar>a + b\<bar> < 2 ^ 53"
    by (simp only: of_int_abs [symmetric] of_int_less_iff)
  from round_double_of_int [OF this]
  have s: "dadd x y = Fin (of_int (a + b))" by (simp add: x y)
  show "dadd x y = Fin (value_of x + value_of y)"
    by (simp add: s) (simp add: x y value_of_def)
  show "whole (dadd x y)" by (simp only: s) (simp add: whole_def)
  show "magnitude (dadd x y) \<le> magnitude x + magnitude y"
    by (simp only: s) (simp add: x y magnitude_def)
qed

lemma foldl_dadd_whole:
  assumes "whole a" "\<forall>x\<in>set xs. whole x"
    and "magnitude a + sum_list (map magnitude xs) < 2 ^ 53"
  shows "foldl dadd a xs = Fin (value_of a + sum_list (map value_of xs))"
  using assms
proof (induction xs arbitrary: a)
  case Nil
  then show ?case by (cases a) (auto simp: whole_def value_of_def)
next
  case (Cons x xs)
  have mx: "0 \<le> sum_list (map magnitude xs)"
    by (rule sum_list_nonneg) (auto simp: magnitude_def split: double.splits)
  have b: "magnitude a + magnitude x < 2 ^ 53"
    using Cons.prems(3) mx by simp
  have wx: "whole x" using Cons.prems(2) by simp
  note d = dadd_whole [OF Cons.prems(1) wx b]
  have "magnitude (dadd a x) + sum_list (map magnitude xs) < 2 ^ 53"
    using d(3) Cons.prems(3) by simp
  from Cons.IH [OF d(2) _ this] Cons.prems(2)
  have "foldl dadd (dadd a x) xs = Fin (value_of (dadd a x) + sum_list (map value_of xs))"
    by simp
  then show ?case
    by (simp add: d(1)) (simp add: value_of_def)
qed

lemma Math_round_quotient:
  fixes S :: int and n :: nat
  assumes "\<bar>S\<bar> < 2 ^ 52" and "0 < n" and "int n < 2 ^ 53"
  shows "Math_round (round_double (of_int S / of_nat n))
           = Fin (of_int \<lfloor>(of_int S / of_nat n :: rat) + 1 / 2\<rfloor>)"
proof (cases "S = 0")
  case True
  then show ?thesis by (simp add: round_double_def)
next
  case False
  define x :: rat where "x = of_int S / of_nat n"
  define k where "k = \<lfloor>x + 1 / 2\<rfloor>"
  have npos: "(0 :: rat) < of_nat n" using assms(2) by simp
  have x0: "x \<noteq> 0" using False npos by (simp add: x_def)
  have n1: "(1 :: rat) \<le> of_nat n" using assms(2) by simp
  have Sabs: "\<bar>of_int S :: rat\<bar> < 2 ^ 52"
    using assms(1) by (metis of_int_abs of_int_less_iff of_int_numeral of_int_power)
  have xS: "\<bar>x\<bar> * of_nat n = \<bar>of_int S\<bar>"
    using npos by (simp add: x_def abs_divide)
  have xle: "\<bar>x\<bar> \<le> \<bar>of_int S\<bar>"
  proof -
    have "\<bar>x\<bar> * 1 \<le> \<bar>x\<bar> * of_nat n" using n1 by (intro mult_left_mono) auto
    with xS show ?thesis by simp
  qed
  have x52: "\<bar>x\<bar> < 2 ^ 52" using xle Sabs by simp
  then have x53: "\<bar>x\<bar> < 2 ^ 53" by simp
  from round_double_error [OF x0 x53]
  obtain y where y: "round_double x = Fin y"
    and err: "\<bar>y - x\<bar> \<le> (2 :: rat) powi (ulp_exponent x) / 2" by blast
  have xpos: "0 < \<bar>x\<bar>" using x0 by simp
  have "1 \<le> \<bar>S\<bar>" using False by simp
  then have "(of_int 1 :: rat) \<le> of_int \<bar>S\<bar>" by (simp only: of_int_le_iff)
  then have S1: "(1 :: rat) \<le> \<bar>of_int S\<bar>" by simp
  have nlt: "(of_nat n :: rat) < 2 ^ 53"
    using assms(3) by (metis of_int_less_iff of_int_numeral of_int_of_nat_eq of_int_power)
  have "(2 :: rat) powi (- 53) * of_nat n < (1 :: rat)"
    using nlt by (simp add: power_int_minus field_simps)
  also have "\<dots> \<le> \<bar>x\<bar> * of_nat n" using xS S1 by simp
  finally have "(2 :: rat) powi (- 53) < \<bar>x\<bar>" using npos by simp
  then have "- 53 \<le> floor_log2 \<bar>x\<bar>"
    by (intro floor_log2_ge [OF xpos]) simp
  then have q: "ulp_exponent x = floor_log2 \<bar>x\<bar> - 52"
    by (simp add: ulp_exponent_def)
  have "(2 :: rat) powi (ulp_exponent x) = (2 :: rat) powi (floor_log2 \<bar>x\<bar>) / (2 :: rat) ^ 52"
    by (simp add: q power_int_diff)
  also have "\<dots> \<le> \<bar>x\<bar> / 2 ^ 52"
    using floor_log2_bounds(1) [OF xpos] by (simp add: divide_right_mono)
  finally have P: "(2 :: rat) powi (ulp_exponent x) \<le> \<bar>x\<bar> / 2 ^ 52" .
  have "(2 :: rat) powi (ulp_exponent x) * of_nat n \<le> \<bar>x\<bar> / 2 ^ 52 * of_nat n"
    using P by (intro mult_right_mono) auto
  also have "\<dots> = \<bar>of_int S\<bar> / 2 ^ 52" using xS by simp
  also have "\<dots> < 1" using Sabs by simp
  finally have Pn: "(2 :: rat) powi (ulp_exponent x) * of_nat n < 1" .
  have errn: "\<bar>y - x\<bar> * (2 * of_nat n) < 1"
  proof -
    have "\<bar>y - x\<bar> * (2 * of_nat n) \<le> (2 :: rat) powi (ulp_exponent x) / 2 * (2 * of_nat n)"
      using err by (intro mult_right_mono) auto
    also have "\<dots> = (2 :: rat) powi (ulp_exponent x) * of_nat n" by simp
    finally show ?thesis using Pn by simp
  qed
  have kx: "of_int k - 1 / 2 \<le> x" "x < of_int k + 1 / 2"
    unfolding k_def by linarith+
  have xn: "x * of_nat n = of_int S" using npos by (simp add: x_def)
  have up: "y < of_int k + 1 / 2"
  proof -
    have "of_int (2 * S) < (of_int ((2 * k + 1) * int n) :: rat)"
    proof -
      have "x * of_nat n < (of_int k + 1 / 2) * of_nat n"
        using kx(2) npos by (intro mult_strict_right_mono)
      then show ?thesis by (simp add: xn algebra_simps)
    qed
    then have "2 * S < (2 * k + 1) * int n" by (simp only: of_int_less_iff)
    then have "2 * S + 1 \<le> (2 * k + 1) * int n" by simp
    then have "(of_int (2 * S + 1) :: rat) \<le> of_int ((2 * k + 1) * int n)"
      by (simp only: of_int_le_iff)
    then have "2 * (x * of_nat n) + 1 \<le> (2 * of_int k + 1) * of_nat n"
      by (simp add: xn)
    then have g: "1 \<le> (of_int k + 1 / 2 - x) * (2 * of_nat n)"
      by (simp add: algebra_simps)
    have "(y - x) * (2 * of_nat n) \<le> \<bar>y - x\<bar> * (2 * of_nat n)"
      by (intro mult_right_mono) auto
    with errn g have "(y - x) * (2 * of_nat n) < (of_int k + 1 / 2 - x) * (2 * of_nat n)"
      by linarith
    then have "y - x < of_int k + 1 / 2 - x"
      using npos by (simp add: mult_less_cancel_right)
    then show ?thesis by simp
  qed
  have lo: "of_int k - 1 / 2 \<le> y"
  proof (cases "x = of_int k - 1 / 2")
    case True
    then have xa: "x = of_int (2 * k - 1) / 2 ^ 1" by simp
    have "\<bar>x\<bar> < (2 :: rat) powi (53 - int 1)" using x52 by simp
    from round_double_dyadic [OF xa this] y True show ?thesis by simp
  next
    case False
    with kx(1) have "of_int k - 1 / 2 < x" by simp
    then have "(of_int k - 1 / 2) * of_nat n < x * of_nat n"
      using npos by (intro mult_strict_right_mono)
    then have "(of_int ((2 * k - 1) * int n) :: rat) < of_int (2 * S)"
      by (simp add: xn algebra_simps)
    then have "(2 * k - 1) * int n < 2 * S" by (simp only: of_int_less_iff)
    then have "(2 * k - 1) * int n + 1 \<le> 2 * S" by simp
    then have "(of_int ((2 * k - 1) * int n + 1) :: rat) \<le> of_int (2 * S)"
      by (simp only: of_int_le_iff)
    then have "(2 * of_int k - 1) * of_nat n + 1 \<le> 2 * (x * of_nat n)"
      by (simp add: xn)
    then have g: "1 \<le> (x - (of_int k - 1 / 2)) * (2 * of_nat n)"
      by (simp add: algebra_simps)
    have "(x - y) * (2 * of_nat n) \<le> \<bar>y - x\<bar> * (2 * of_nat n)"
      by (intro mult_right_mono) auto
    with errn g have "(x - y) * (2 * of_nat n) < (x - (of_int k - 1 / 2)) * (2 * of_nat n)"
      by linarith
    then have "x - y < x - (of_int k - 1 / 2)"
      using npos by (simp add: mult_less_cancel_right)
    then show ?thesis by simp
  qed
  from lo up have "\<lfloor>y + 1 / 2\<rfloor> = k" by linarith
  then show ?thesis
    by (simp add: y x_def [symmetric] k_def)
qed

lemma sum_list_whole:
  assumes "\<forall>x\<in>set xs. whole x"
  shows "\<exists>k. sum_list (map value_of xs) = of_int k
           \<and> \<bar>of_int k :: rat\<bar> \<le> sum_list (map magnitude xs)"
  using assms
proof (induction xs)
  case Nil
  show ?case by (rule exI [of _ 0]) simp
next
  case (Cons x xs)
  then obtain k where k: "sum_list (map value_of xs) = of_int k"
    "\<bar>of_int k :: rat\<bar> \<le> sum_list (map magnitude xs)"
    by auto
  from Cons.prems obtain a where x: "x = Fin (of_int a)"
    by (auto simp: whole_of_int)
  have v: "value_of x = of_int a" and m: "magnitude x = \<bar>of_int a\<bar>"
    by (simp_all add: x value_of_def magnitude_def)
  have "\<bar>of_int (a + k) :: rat\<bar> \<le> \<bar>of_int a\<bar> + \<bar>of_int k\<bar>" by simp
  with k(2) have "\<bar>of_int (a + k) :: rat\<bar> \<le> magnitude x + sum_list (map magnitude xs)"
    by (simp only: m)
  then show ?case
    by (intro exI [of _ "a + k"]) (simp add: v k(1))
qed

lemma Math_round_whole: "Math_round (Fin (of_int k)) = Fin (of_int k)"
proof -
  have "\<lfloor>(of_int k :: rat) + 1 / 2\<rfloor> = k" by linarith
  then show ?thesis by simp
qed

lemma Math_round_zero: "Math_round (Fin 0) = Fin 0"
  using Math_round_whole [of 0] by (simp del: Math_round.simps)

lemma double_sum_whole:
  assumes "\<forall>x\<in>set xs. whole x" and "sum_list (map magnitude xs) < 2 ^ 53"
  shows "foldl dadd (Fin 0) xs = Fin (sum_list (map value_of xs))"
proof -
  have "whole (Fin 0)" by (simp add: whole_def)
  moreover have "magnitude (Fin 0) + sum_list (map magnitude xs) < 2 ^ 53"
    using assms(2) by (simp add: magnitude_def)
  ultimately have "foldl dadd (Fin 0) xs = Fin (value_of (Fin 0) + sum_list (map value_of xs))"
    using assms(1) by (intro foldl_dadd_whole)
  then show ?thesis by (simp add: value_of_def)
qed

lemma double_total_whole:
  assumes "\<forall>x\<in>set xs. whole x" and "sum_list (map magnitude xs) < 2 ^ 53"
  shows "Math_round (foldl dadd (Fin 0) xs) = Fin (sum_list (map value_of xs))"
proof -
  from sum_list_whole [OF assms(1)] obtain k where "sum_list (map value_of xs) = of_int k"
    by blast
  then show ?thesis
    by (simp only: double_sum_whole [OF assms] Math_round_whole)
qed

lemma double_mean_whole:
  assumes "xs \<noteq> []" and "length xs < 2 ^ 32" and "\<forall>x\<in>set xs. whole x"
    and "sum_list (map magnitude xs) < 2 ^ 52"
  shows "Math_round (div_count (foldl dadd (Fin 0) xs) (length xs))
           = Fin (of_int \<lfloor>sum_list (map value_of xs) / of_nat (length xs) + 1 / 2\<rfloor>)"
proof -
  from sum_list_whole [OF assms(3)] obtain k where k: "sum_list (map value_of xs) = of_int k"
    "\<bar>of_int k :: rat\<bar> \<le> sum_list (map magnitude xs)"
    by blast
  from k(2) assms(4) have "\<bar>of_int k :: rat\<bar> < of_int (2 ^ 52)" by simp
  then have kb: "\<bar>k\<bar> < 2 ^ 52"
    by (simp only: of_int_abs [symmetric] of_int_less_iff)
  have n0: "0 < length xs" using assms(1) by simp
  have "int (length xs) < int (2 ^ 32)" using assms(2) by (simp only: of_nat_less_iff)
  then have nb: "int (length xs) < 2 ^ 53" by simp
  have "sum_list (map magnitude xs) < 2 ^ 53" using assms(4) by simp
  from double_sum_whole [OF assms(3) this]
  have "div_count (foldl dadd (Fin 0) xs) (length xs)
          = round_double (of_int k / of_nat (length xs))"
    by (simp add: k(1))
  with Math_round_quotient [OF kb n0 nb] show ?thesis by (simp add: k(1))
qed

lemma floor_rat_numeral: "\<lfloor>numeral a / numeral b :: rat\<rfloor> = numeral a div numeral b"
  by (metis floor_divide_of_int_eq of_int_numeral)

lemma round_double_numeral:
  "(numeral n :: int) < 2 ^ 53 \<Longrightarrow> round_double (numeral n) = Fin (numeral n)"
  using round_double_of_int [of "numeral n"] by simp

lemma round_double_63_halves: "round_double (63 / 2) = Fin (63 / 2)"
  using round_double_dyadic [of "63 / 2" 63 1] by simp

text \<open>
  Rounding at work: a tenth is not a double; a sum of doubles is rounded before
  \<^verbatim>\<open>Math.round\<close> sees it (the exact sum below would round to 1); and a sum beyond the
  largest double is an infinity.
\<close>

lemma round_double_one_tenth:
  "round_double (1 / 10) = Fin (3602879701896397 / 36028797018963968)"
  by code_simp

lemma Math_round_rounded_sum:
  "Math_round (dadd (Fin ((2 ^ 53 - 1) / 2 ^ 54)) (Fin 1)) = Fin 2
   \<and> \<lfloor>((2 ^ 53 - 1) / 2 ^ 54 + 1 :: rat) + 1 / 2\<rfloor> = 1"
  by code_simp

lemma floor_log2_power: "floor_log2 (2 ^ n) = int n"
proof -
  have p: "(0 :: rat) < 2 ^ n" by simp
  have "(2 :: rat) powi (int n) \<le> 2 ^ n" by simp
  then have "int n \<le> floor_log2 (2 ^ n)"
    by (rule floor_log2_ge [OF p])
  moreover have "(2 :: rat) powi (int n + 1) = 2 ^ Suc n"
    by (simp add: power_int_def nat_add_distrib)
  then have "(2 :: rat) ^ n < 2 powi (int n + 1)" by simp
  then have "floor_log2 (2 ^ n) < int n + 1"
    by (rule floor_log2_less [OF p])
  ultimately show ?thesis by simp
qed

lemma round_double_overflow: "round_double (2 ^ 1024) = PInf"
proof -
  have u: "ulp_exponent (2 ^ 1024) = 972"
    using floor_log2_power [of 1024] by (simp add: ulp_exponent_def)
  have "(2 :: rat) ^ 1024 / 2 powi 972 = 2 powi (1024 - 972)"
    using power_int_diff [of "2 :: rat" 1024 972] by simp
  also have "\<dots> = of_int (2 ^ 52)" by simp
  finally have q: "(2 :: rat) ^ 1024 / 2 powi 972 = of_int (2 ^ 52)" .
  have "of_int (round_half_even ((2 :: rat) ^ 1024 / 2 powi 972)) * (2 :: rat) powi 972
          = 2 ^ 52 * 2 powi 972"
    by (simp only: q round_half_even_of_int) simp
  also have "\<dots> = 2 powi (52 + 972)"
    using power_int_add [of "2 :: rat" 52 972] by simp
  also have "\<dots> = 2 ^ 1024" by simp
  finally have y: "of_int (round_half_even ((2 :: rat) ^ 1024 / 2 powi 972)) * (2 :: rat) powi 972
          = 2 ^ 1024" .
  show ?thesis
    unfolding round_double_def Let_def u y by simp
qed

lemma dadd_overflow: "dadd (Fin (2 ^ 1023)) (Fin (2 ^ 1023)) = PInf"
proof -
  have "(2 :: rat) ^ 1023 + 2 ^ 1023 = 2 ^ 1024" by simp
  then show ?thesis by (simp only: dadd.simps round_double_overflow)
qed

section \<open>Facts about the helpers\<close>

lemma sort_desc_set: "set (sort_desc k xs) = set xs"
  by (simp add: sort_desc_def)

lemma sort_desc_descending: "sorted_wrt (\<ge>) (map k (sort_desc k xs))"
proof -
  have "sorted (map k (sort_key k xs))" by (rule sorted_sort_key)
  then have "sorted_wrt (\<ge>) (rev (map k (sort_key k xs)))"
    by (simp add: sorted_wrt_rev)
  then show ?thesis by (simp add: sort_desc_def rev_map)
qed

lemma mongo_limit_subset: "set (mongo_limit n xs) \<subseteq> set xs"
  by (auto simp: mongo_limit_def dest: in_set_takeD)

lemma mongo_limit_length: "n \<noteq> 0 \<Longrightarrow> length (mongo_limit n xs) \<le> nat \<bar>n\<bar>"
  by (simp add: mongo_limit_def)

lemma mongo_limit_descending:
  "sorted_wrt (\<ge>) (map k xs) \<Longrightarrow> sorted_wrt (\<ge>) (map k (mongo_limit n xs))"
  by (simp add: mongo_limit_def take_map [symmetric] sorted_wrt_take)

lemma has_field_select_minus: "k \<in> set names \<Longrightarrow> \<not> has_field k (select_minus names fs)"
  by (auto simp: has_field_def select_minus_def)

lemma question_id_selected:
  "get_field ''_id'' (select_minus [''correctAnswer'', ''explanation''] (question_fields x))
     = Some (JObjectId (q_id x))"
  by (simp add: get_field_def select_minus_def question_fields_def)

lemma split_on_no_sep: "d \<notin> set t \<Longrightarrow> split_on d t = [t]"
  by (induction t) auto

text \<open>A header \<^verbatim>\<open>Bearer <token>\<close> carries its token.\<close>

lemma header_token_bearer:
  "t \<noteq> [] \<Longrightarrow> CHR '' '' \<notin> set t \<Longrightarrow> header_token (Some (''Bearer '' @ t)) = Some t"
  by (simp add: header_token_def split_on_no_sep)

lemma findOne_email_None: "findOne_email x us = None \<longleftrightarrow> x \<notin> user_email ` set us"
  by (auto simp: findOne_email_def find_None_iff)


lemma authenticateToken_no_token:
  "header_token h = None \<Longrightarrow>
     authenticateToken e h next d = (Response 401 (error_body ''Access token required''), d)"
  by (simp add: authenticateToken_def)

lemma authenticateToken_bad_token:
  "header_token h = Some t \<Longrightarrow> jwt_verify e t = None \<Longrightarrow>
     authenticateToken e h next d = (Response 403 (error_body ''Invalid or expired token''), d)"
  by (simp add: authenticateToken_def)

lemma authenticateToken_valid:
  "header_token h = Some t \<Longrightarrow> jwt_verify e t = Some user \<Longrightarrow>
     authenticateToken e h next d = next user d"
  by (simp add: authenticateToken_def)

text \<open>A protected route is the guard applied to the route's handler.\<close>

lemma app_protected:
  "protected (req_route req) \<Longrightarrow>
     \<exists>next. app e c req d = authenticateToken e (req_authorization req) next d"
  by (cases "req_route req")
     (auto simp: app_def post_test_results_def get_test_results_def
        get_dashboard_stats_def post_universities_def)

lemma find_questions_subset: "set (find_questions t s q d) \<subseteq> set (questions d)"
  unfolding find_questions_def Let_def
  by (rule subset_trans [OF mongo_limit_subset]) (auto simp: sort_desc_set)

lemma find_questions_descending: "sorted_wrt (\<ge>) (map q_id (find_questions t s q d))"
  unfolding find_questions_def Let_def
  by (rule mongo_limit_descending) (rule sort_desc_descending)

text \<open>\<^verbatim>\<open>reduce\<close> with an addition is the sum.\<close>

lemma foldl_map_fun: "foldl (\<lambda>a x. f a (g x)) a xs = foldl f a (map g xs)"
  by (induction xs arbitrary: a) simp_all

lemma find_results_owned:
  "r \<in> set (find_results uid d) \<longleftrightarrow> r \<in> set (testResults d) \<and> tr_userId r = uid"
  by (auto simp: find_results_def)

lemma find_results_append_other:
  "tr_userId r \<noteq> uid \<Longrightarrow>
     find_results uid (d\<lparr>testResults := testResults d @ [r]\<rparr>) = find_results uid d"
  by (simp add: find_results_def)

lemma new_TestResult_owner: "new_TestResult c uid body = Inr r \<Longrightarrow> tr_userId r = uid"
  by (auto simp: new_TestResult_def split: option.splits if_splits)




lemma dot_is_meta: "CHR ''.'' \<in> set metachars"
  by (simp add: metachars_def)

lemma literal_pattern_Cons:
  "literal_pattern (p # ps) \<longleftrightarrow> p \<notin> set metachars \<and> literal_pattern ps"
  by (simp add: literal_pattern_def)

text \<open>On a pattern without metacharacters the engine is the substring search.\<close>

lemma match_here_literal:
  "literal_pattern p \<Longrightarrow> match_here p s = prefix (map to_lower p) (map to_lower s)"
proof (induction p s rule: match_here.induct)
  case (3 p ps c cs)
  from 3(2) have "p \<notin> set metachars" and lit: "literal_pattern ps"
    by (simp_all add: literal_pattern_Cons)
  then have "p \<noteq> CHR ''.''" using dot_is_meta by blast
  with 3(1) [OF lit] show ?case by simp
qed simp_all

lemma search_from_literal:
  "literal_pattern p \<Longrightarrow> search_from p s = contains_ci p s"
proof (induction s)
  case Nil
  then show ?case by (cases p) (simp_all add: contains_ci_def)
next
  case (Cons c cs)
  then show ?case
    by (simp add: contains_ci_def match_here_literal sublist_Cons_right)
qed

lemma regex_dot_i_literal:
  "literal_pattern p \<Longrightarrow> regex_dot_i p = Some (search_from p)"
proof -
  assume "literal_pattern p"
  then have "list_all (\<lambda>c. c = CHR ''.'' \<or> c \<notin> set metachars) p"
    unfolding literal_pattern_def list_all_iff by blast
  then show ?thesis by (simp only: regex_dot_i_def if_True)
qed

lemma sort_asc_set: "set (sort_asc k xs) = set xs"
  by (simp add: sort_asc_def)

lemma sort_asc_sorted: "sorted (map k (sort_asc k xs))"
  by (simp add: sort_asc_def)

section \<open>Login\<close>

text \<open>
  C1. The claim does not hold of the handler. A login that carries no string password
  (the field is missing, or holds a value of another type) is rejected by
  \<^verbatim>\<open>bcrypt.compare\<close>, but only after the account was looked up: when the email has
  an account the \<^verbatim>\<open>catch\<close> answers 500 \<^verbatim>\<open>Server error during login\<close>, and when it
  has none the handler has already answered 400 \<^verbatim>\<open>Invalid credentials\<close>. The password
  of such a login fails verification against every hash, and the two responses differ:
  they tell the caller whether the email has an account.
\<close>

theorem login_without_password_reveals_account:
  "login e \<lparr>lb_email = x, lb_password = None\<rparr> d
     = (if x \<in> user_email ` set (users d)
        then (Response 500 (error_body ''Server error during login''), d)
        else (Response 400 (error_body ''Invalid credentials''), d))
   \<and> Response 500 (error_body ''Server error during login'')
        \<noteq> Response 400 (error_body ''Invalid credentials'')"
proof (cases "findOne_email x (users d)")
  case None
  then have "x \<notin> user_email ` set (users d)"
    by (simp add: findOne_email_None)
  with None show ?thesis by (simp add: login_def)
next
  case (Some u)
  then have "x \<in> user_email ` set (users d)"
    using findOne_email_None [of x "users d"] by auto
  with Some show ?thesis by (simp add: login_def compare_password_def)
qed

text \<open>
  On the sample: Alice has an account and nobody has none. Without a password the first
  login is answered 500 and the second 400.
\<close>

lemma login_without_password_sample:
  "login sample_env \<lparr>lb_email = ''alice@example.com'', lb_password = None\<rparr> sample_db
     = (Response 500 (JObj [(''error'', JStr ''Server error during login'')]), sample_db)
   \<and> login sample_env \<lparr>lb_email = ''nobody@example.com'', lb_password = None\<rparr> sample_db
     = (Response 400 (JObj [(''error'', JStr ''Invalid credentials'')]), sample_db)"
  by (simp add: login_def findOne_email_def compare_password_def error_body_def
      sample_db_def sample_users_def)

text \<open>
  What holds of the claim: when the password is a string that \<^verbatim>\<open>bcrypt.compare\<close>
  finds not to verify against the stored hash, the response is the one of an unknown
  email, status 400 with the body \<^verbatim>\<open>{error: 'Invalid credentials'}\<close>, and the database
  is left as it was.
\<close>

lemma login_wrong_password_as_unknown_email:
  assumes unknown: "lb_email b1 \<notin> user_email ` set (users d1)"
    and known: "findOne_email (lb_email b2) (users d2) = Some u"
    and string: "lb_password b2 = Some p"
    and wrong: "\<not> bcrypt_compare e p (user_password u)"
  shows "login e b1 d1 = (Response 400 (error_body ''Invalid credentials''), d1)
       \<and> login e b2 d2 = (Response 400 (error_body ''Invalid credentials''), d2)
       \<and> fst (login e b1 d1) = fst (login e b2 d2)"
  using assms by (simp add: login_def compare_password_def findOne_email_None [symmetric])

section \<open>Questions\<close>

text \<open>
  C2. Whatever the test type, section, difficulty filter and limit, the response to a
  list-questions request is an array of objects none of which has a
  \<^verbatim>\<open>correctAnswer\<close> or an \<^verbatim>\<open>explanation\<close> field, and the objects are those of stored
  questions in descending order of ObjectId, the most recently created first.
\<close>

theorem questions_without_answers_newest_first:
  "\<exists>items qs. get_questions testType section q d = (Response 200 (JArr (map JObj items)), d)
     \<and> (\<forall>fs\<in>set items. \<not> has_field ''correctAnswer'' fs \<and> \<not> has_field ''explanation'' fs)
     \<and> map (get_field ''_id'') items = map (\<lambda>x. Some (JObjectId (q_id x))) qs
     \<and> set qs \<subseteq> set (questions d)
     \<and> sorted_wrt (\<ge>) (map q_id qs)"
proof -
  let ?qs = "find_questions testType section q d"
  let ?items = "map (\<lambda>x. select_minus [''correctAnswer'', ''explanation''] (question_fields x)) ?qs"
  have "get_questions testType section q d = (Response 200 (JArr (map JObj ?items)), d)"
    by (simp add: get_questions_def comp_def)
  moreover have "\<forall>fs\<in>set ?items. \<not> has_field ''correctAnswer'' fs \<and> \<not> has_field ''explanation'' fs"
    by (auto simp: has_field_select_minus)
  moreover have "map (get_field ''_id'') ?items = map (\<lambda>x. Some (JObjectId (q_id x))) ?qs"
    by (simp add: question_id_selected comp_def)
  ultimately show ?thesis
    using find_questions_subset find_questions_descending by blast
qed

theorem questions_without_answers_newest_first_witness:
  "(\<exists>items qs. get_questions ''GRE'' ''Verbal'' \<lparr>qq_limit = Some 2, qq_difficulty = Some ''medium''\<rparr>
                  (sample_db\<lparr>questions := twelve_questions\<rparr>)
                  = (Response 200 (JArr (map JObj items)), sample_db\<lparr>questions := twelve_questions\<rparr>)
     \<and> (\<forall>fs\<in>set items. \<not> has_field ''correctAnswer'' fs \<and> \<not> has_field ''explanation'' fs)
     \<and> map (get_field ''_id'') items = map (\<lambda>x. Some (JObjectId (q_id x))) qs
     \<and> set qs \<subseteq> set (questions (sample_db\<lparr>questions := twelve_questions\<rparr>))
     \<and> sorted_wrt (\<ge>) (map q_id qs))
   \<and> get_questions ''GRE'' ''Verbal'' \<lparr>qq_limit = Some 2, qq_difficulty = Some ''medium''\<rparr>
        (sample_db\<lparr>questions := twelve_questions\<rparr>)
        = (Response 200
             (JArr [JObj [(''_id'', JObjectId 12), (''testType'', JStr ''GRE''),
                          (''section'', JStr ''Verbal''),
                          (''question'', JStr ''Pick the synonym.''),
                          (''options'', JArr [JStr ''a'', JStr ''b'', JStr ''c'', JStr ''d'']),
                          (''difficulty'', JStr ''medium''), (''__v'', JNum 0)],
                    JObj [(''_id'', JObjectId 11), (''testType'', JStr ''GRE''),
                          (''section'', JStr ''Verbal''),
                          (''question'', JStr ''Pick the synonym.''),
                          (''options'', JArr [JStr ''a'', JStr ''b'', JStr ''c'', JStr ''d'']),
                          (''difficulty'', JStr ''medium''), (''__v'', JNum 0)]]),
           sample_db\<lparr>questions := twelve_questions\<rparr>)"
proof -
  have a: "\<exists>items qs. get_questions ''GRE'' ''Verbal'' \<lparr>qq_limit = Some 2, qq_difficulty = Some ''medium''\<rparr>
                  (sample_db\<lparr>questions := twelve_questions\<rparr>)
                  = (Response 200 (JArr (map JObj items)), sample_db\<lparr>questions := twelve_questions\<rparr>)
     \<and> (\<forall>fs\<in>set items. \<not> has_field ''correctAnswer'' fs \<and> \<not> has_field ''explanation'' fs)
     \<and> map (get_field ''_id'') items = map (\<lambda>x. Some (JObjectId (q_id x))) qs
     \<and> set qs \<subseteq> set (questions (sample_db\<lparr>questions := twelve_questions\<rparr>))
     \<and> sorted_wrt (\<ge>) (map q_id qs)"
    by (rule questions_without_answers_newest_first)
  have b: "get_questions ''GRE'' ''Verbal'' \<lparr>qq_limit = Some 2, qq_difficulty = Some ''medium''\<rparr>
        (sample_db\<lparr>questions := twelve_questions\<rparr>)
        = (Response 200
             (JArr [JObj [(''_id'', JObjectId 12), (''testType'', JStr ''GRE''),
                          (''section'', JStr ''Verbal''),
                          (''question'', JStr ''Pick the synonym.''),
                          (''options'', JArr [JStr ''a'', JStr ''b'', JStr ''c'', JStr ''d'']),
                          (''difficulty'', JStr ''medium''), (''__v'', JNum 0)],
                    JObj [(''_id'', JObjectId 11), (''testType'', JStr ''GRE''),
                          (''section'', JStr ''Verbal''),
                          (''question'', JStr ''Pick the synonym.''),
                          (''options'', JArr [JStr ''a'', JStr ''b'', JStr ''c'', JStr ''d'']),
                          (''difficulty'', JStr ''medium''), (''__v'', JNum 0)]]),
           sample_db\<lparr>questions := twelve_questions\<rparr>)"
    by (simp add: get_questions_def find_questions_def mongo_limit_def sort_desc_def
        difficulty_filter_def select_minus_def question_fields_def opt_field_def
        twelve_questions_def)
  from a b show ?thesis by (intro conjI)
qed

text \<open>
  C10. A list-questions request without a limit parameter is answered under the default
  limit of 10: the array of the response holds the first ten of the matching questions
  in descending order of ObjectId, or all of them when they are fewer, so it has at most
  ten elements.
\<close>

theorem questions_default_limit:
  assumes "qq_limit q = None"
  shows "\<exists>items. get_questions testType section q d = (Response 200 (JArr items), d)
           \<and> items = map (\<lambda>x. JObj (select_minus [''correctAnswer'', ''explanation'']
                                         (question_fields x)))
                        (take 10 (sort_desc q_id
                           (filter (\<lambda>x. q_testType x = testType \<and> q_section x = section \<and>
                                         difficulty_filter (qq_difficulty q) (q_difficulty x))
                              (questions d))))
           \<and> length items \<le> 10"
  using assms by (simp add: get_questions_def find_questions_def mongo_limit_def)

theorem questions_default_limit_witness:
  "qq_limit \<lparr>qq_limit = None, qq_difficulty = None\<rparr> = None
   \<and> length (questions (sample_db\<lparr>questions := twelve_questions\<rparr>)) = 12
   \<and> (\<exists>items. get_questions ''GRE'' ''Verbal'' \<lparr>qq_limit = None, qq_difficulty = None\<rparr>
                 (sample_db\<lparr>questions := twelve_questions\<rparr>)
                 = (Response 200 (JArr items), sample_db\<lparr>questions := twelve_questions\<rparr>)
              \<and> length items = 10)"
proof -
  have h: "qq_limit \<lparr>qq_limit = None, qq_difficulty = None\<rparr> = None" by simp
  have n: "length (questions (sample_db\<lparr>questions := twelve_questions\<rparr>)) = 12"
    by (simp add: twelve_questions_def)
  from questions_default_limit
         [OF h, of "''GRE''" "''Verbal''" "sample_db\<lparr>questions := twelve_questions\<rparr>"]
  obtain items where
    a: "get_questions ''GRE'' ''Verbal'' \<lparr>qq_limit = None, qq_difficulty = None\<rparr>
                 (sample_db\<lparr>questions := twelve_questions\<rparr>)
                 = (Response 200 (JArr items), sample_db\<lparr>questions := twelve_questions\<rparr>)"
    and b: "items = map (\<lambda>x. JObj (select_minus [''correctAnswer'', ''explanation'']
                                         (question_fields x)))
                        (take 10 (sort_desc q_id
                           (filter (\<lambda>x. q_testType x = ''GRE'' \<and> q_section x = ''Verbal'' \<and>
                                         difficulty_filter
                                           (qq_difficulty \<lparr>qq_limit = None, qq_difficulty = None\<rparr>)
                                           (q_difficulty x))
                              (questions (sample_db\<lparr>questions := twelve_questions\<rparr>)))))"
    by blast
  from b have "length items = 10"
    by (simp add: twelve_questions_def sort_desc_def difficulty_filter_def)
  with h n a show ?thesis by blast
qed

text \<open>
  C6, as amended. A check-answer request without an id, or with an ObjectId that no
  stored question has, or with a query condition that no stored question meets, is
  answered 404 \<^verbatim>\<open>Question not found\<close>; a request whose id casts neither to an
  ObjectId nor to a query condition is answered 500. A request with the ObjectId of a
  stored question is answered from a question with that id, and a request whose id is
  a query condition that some stored question meets is answered from a question that
  meets it: the response is 200 with \<^verbatim>\<open>correct\<close> true exactly when the submitted
  answer is the stored correct index, and, whether the answer is right or wrong, with
  the stored correct index and the stored explanation (no \<^verbatim>\<open>explanation\<close> field when
  the question has none).
\<close>

theorem check_answer_reveals_after_attempt:
  "(ca_questionId b = None \<longrightarrow>
      check_answer b d = (Response 404 (error_body ''Question not found''), d))
   \<and> (\<forall>i. ca_questionId b = Some (ObjectId i) \<and> i \<notin> q_id ` set (questions d) \<longrightarrow>
      check_answer b d = (Response 404 (error_body ''Question not found''), d))
   \<and> (\<forall>P. ca_questionId b = Some (IdCondition P) \<and> (\<forall>x\<in>set (questions d). \<not> P (q_id x)) \<longrightarrow>
      check_answer b d = (Response 404 (error_body ''Question not found''), d))
   \<and> (\<forall>v. ca_questionId b = Some (NotObjectId v) \<longrightarrow>
      check_answer b d = (Response 500 (error_body ''Error checking answer''), d))
   \<and> (\<forall>i. ca_questionId b = Some (ObjectId i) \<and> i \<in> q_id ` set (questions d) \<longrightarrow>
        (\<exists>qn\<in>set (questions d). q_id qn = i
           \<and> (\<exists>body. check_answer b d = (Response 200 (JObj body), d)
                \<and> get_field ''correct'' body
                    = Some (JBool (ca_userAnswer b = Some (JNum (q_correctAnswer qn))))
                \<and> (\<forall>n. ca_userAnswer b = Some (JNum n) \<longrightarrow>
                     get_field ''correct'' body = Some (JBool (n = q_correctAnswer qn)))
                \<and> get_field ''correctAnswer'' body = Some (JNum (q_correctAnswer qn))
                \<and> get_field ''explanation'' body = map_option JStr (q_explanation qn))))
   \<and> (\<forall>P. ca_questionId b = Some (IdCondition P) \<and> (\<exists>x\<in>set (questions d). P (q_id x)) \<longrightarrow>
        (\<exists>qn\<in>set (questions d). P (q_id qn)
           \<and> (\<exists>body. check_answer b d = (Response 200 (JObj body), d)
                \<and> get_field ''correct'' body
                    = Some (JBool (ca_userAnswer b = Some (JNum (q_correctAnswer qn))))
                \<and> (\<forall>n. ca_userAnswer b = Some (JNum n) \<longrightarrow>
                     get_field ''correct'' body = Some (JBool (n = q_correctAnswer qn)))
                \<and> get_field ''correctAnswer'' body = Some (JNum (q_correctAnswer qn))
                \<and> get_field ''explanation'' body = map_option JStr (q_explanation qn))))"
proof -
  have missing: "check_answer b d = (Response 404 (error_body ''Question not found''), d)"
    if "ca_questionId b = None"
    using that by (simp add: check_answer_def findById_def)
  have absent: "check_answer b d = (Response 404 (error_body ''Question not found''), d)"
    if "ca_questionId b = Some (ObjectId i)" "i \<notin> q_id ` set (questions d)" for i
  proof -
    from that(2) have "\<not> (\<exists>x. x \<in> set (questions d) \<and> q_id x = i)"
      by force
    then have "find (\<lambda>x. q_id x = i) (questions d) = None"
      by (simp add: find_None_iff)
    with that(1) show ?thesis by (simp add: check_answer_def findById_def)
  qed
  have unmet: "check_answer b d = (Response 404 (error_body ''Question not found''), d)"
    if "ca_questionId b = Some (IdCondition P)" "\<forall>x\<in>set (questions d). \<not> P (q_id x)" for P
  proof -
    from that(2) have "find (\<lambda>x. P (q_id x)) (questions d) = None"
      by (simp add: find_None_iff)
    with that(1) show ?thesis by (simp add: check_answer_def findById_def)
  qed
  have malformed: "check_answer b d = (Response 500 (error_body ''Error checking answer''), d)"
    if "ca_questionId b = Some (NotObjectId v)" for v
    using that by (simp add: check_answer_def findById_def)
  have answer: "\<exists>body. check_answer b d = (Response 200 (JObj body), d)
                \<and> get_field ''correct'' body
                    = Some (JBool (ca_userAnswer b = Some (JNum (q_correctAnswer qn))))
                \<and> (\<forall>n. ca_userAnswer b = Some (JNum n) \<longrightarrow>
                     get_field ''correct'' body = Some (JBool (n = q_correctAnswer qn)))
                \<and> get_field ''correctAnswer'' body = Some (JNum (q_correctAnswer qn))
                \<and> get_field ''explanation'' body = map_option JStr (q_explanation qn)"
    if "findById (ca_questionId b) (questions d) = Inr (Some qn)" for qn
    using that
    by (cases "q_explanation qn") (auto simp: check_answer_def get_field_def opt_field_def)
  have first: "\<exists>qn\<in>set (questions d). P (q_id qn) \<and> find (\<lambda>x. P (q_id x)) (questions d) = Some qn"
    if "\<exists>x\<in>set (questions d). P (q_id x)" for P
  proof -
    from that obtain qn where qn: "find (\<lambda>x. P (q_id x)) (questions d) = Some qn"
      by (cases "find (\<lambda>x. P (q_id x)) (questions d)") (auto simp: find_None_iff)
    then have "qn \<in> set (questions d)" and "P (q_id qn)"
      by (auto simp: find_Some_iff)
    with qn show ?thesis by blast
  qed
  have stored: "\<exists>qn\<in>set (questions d). q_id qn = i
           \<and> (\<exists>body. check_answer b d = (Response 200 (JObj body), d)
                \<and> get_field ''correct'' body
                    = Some (JBool (ca_userAnswer b = Some (JNum (q_correctAnswer qn))))
                \<and> (\<forall>n. ca_userAnswer b = Some (JNum n) \<longrightarrow>
                     get_field ''correct'' body = Some (JBool (n = q_correctAnswer qn)))
                \<and> get_field ''correctAnswer'' body = Some (JNum (q_correctAnswer qn))
                \<and> get_field ''explanation'' body = map_option JStr (q_explanation qn))"
    if id: "ca_questionId b = Some (ObjectId i)" and ex: "i \<in> q_id ` set (questions d)" for i
  proof -
    from ex have "\<exists>x\<in>set (questions d). q_id x = i" by auto
    from first [of "\<lambda>x. x = i", OF this]
    obtain qn where qn: "qn \<in> set (questions d)" "q_id qn = i"
      "find (\<lambda>x. q_id x = i) (questions d) = Some qn"
      by blast
    from id qn(3) have "findById (ca_questionId b) (questions d) = Inr (Some qn)"
      by (simp add: findById_def)
    from answer [OF this] qn(1,2) show ?thesis by blast
  qed
  have met: "\<exists>qn\<in>set (questions d). P (q_id qn)
           \<and> (\<exists>body. check_answer b d = (Response 200 (JObj body), d)
                \<and> get_field ''correct'' body
                    = Some (JBool (ca_userAnswer b = Some (JNum (q_correctAnswer qn))))
                \<and> (\<forall>n. ca_userAnswer b = Some (JNum n) \<longrightarrow>
                     get_field ''correct'' body = Some (JBool (n = q_correctAnswer qn)))
                \<and> get_field ''correctAnswer'' body = Some (JNum (q_correctAnswer qn))
                \<and> get_field ''explanation'' body = map_option JStr (q_explanation qn))"
    if id: "ca_questionId b = Some (IdCondition P)" and ex: "\<exists>x\<in>set (questions d). P (q_id x)"
    for P
  proof -
    from first [OF ex]
    obtain qn where qn: "qn \<in> set (questions d)" "P (q_id qn)"
      "find (\<lambda>x. P (q_id x)) (questions d) = Some qn"
      by blast
    from id qn(3) have "findById (ca_questionId b) (questions d) = Inr (Some qn)"
      by (simp add: findById_def)
    from answer [OF this] qn(1,2) show ?thesis by blast
  qed
  show ?thesis
  proof (intro conjI allI impI)
    show "check_answer b d = (Response 404 (error_body ''Question not found''), d)"
      if "ca_questionId b = None"
      using that by (rule missing)
    show "check_answer b d = (Response 404 (error_body ''Question not found''), d)"
      if "ca_questionId b = Some (ObjectId i) \<and> i \<notin> q_id ` set (questions d)" for i
      using that absent by blast
    show "check_answer b d = (Response 404 (error_body ''Question not found''), d)"
      if "ca_questionId b = Some (IdCondition P) \<and> (\<forall>x\<in>set (questions d). \<not> P (q_id x))" for P
      using that unmet by blast
    show "check_answer b d = (Response 500 (error_body ''Error checking answer''), d)"
      if "ca_questionId b = Some (NotObjectId v)" for v
      using that by (rule malformed)
    show "\<exists>qn\<in>set (questions d). q_id qn = i
           \<and> (\<exists>body. check_answer b d = (Response 200 (JObj body), d)
                \<and> get_field ''correct'' body
                    = Some (JBool (ca_userAnswer b = Some (JNum (q_correctAnswer qn))))
                \<and> (\<forall>n. ca_userAnswer b = Some (JNum n) \<longrightarrow>
                     get_field ''correct'' body = Some (JBool (n = q_correctAnswer qn)))
                \<and> get_field ''correctAnswer'' body = Some (JNum (q_correctAnswer qn))
                \<and> get_field ''explanation'' body = map_option JStr (q_explanation qn))"
      if "ca_questionId b = Some (ObjectId i) \<and> i \<in> q_id ` set (questions d)" for i
      using that stored [of i] by (elim conjE) blast
    show "\<exists>qn\<in>set (questions d). P (q_id qn)
           \<and> (\<exists>body. check_answer b d = (Response 200 (JObj body), d)
                \<and> get_field ''correct'' body
                    = Some (JBool (ca_userAnswer b = Some (JNum (q_correctAnswer qn))))
                \<and> (\<forall>n. ca_userAnswer b = Some (JNum n) \<longrightarrow>
                     get_field ''correct'' body = Some (JBool (n = q_correctAnswer qn)))
                \<and> get_field ''correctAnswer'' body = Some (JNum (q_correctAnswer qn))
                \<and> get_field ''explanation'' body = map_option JStr (q_explanation qn))"
      if "ca_questionId b = Some (IdCondition P) \<and> (\<exists>x\<in>set (questions d). P (q_id x))" for P
      using that met [of P] by (elim conjE) blast
  qed
qed

theorem check_answer_reveals_after_attempt_witness:
  "check_answer \<lparr>ca_questionId = None, ca_userAnswer = Some (JNum 2)\<rparr> sample_db
       = (Response 404 (JObj [(''error'', JStr ''Question not found'')]), sample_db)
   \<and> 99 \<notin> q_id ` set (questions sample_db)
   \<and> check_answer \<lparr>ca_questionId = Some (ObjectId 99), ca_userAnswer = Some (JNum 2)\<rparr> sample_db
       = (Response 404 (JObj [(''error'', JStr ''Question not found'')]), sample_db)
   \<and> check_answer \<lparr>ca_questionId = Some (IdCondition (\<lambda>i. 99 < i)), ca_userAnswer = Some (JNum 2)\<rparr>
        sample_db
       = (Response 404 (JObj [(''error'', JStr ''Question not found'')]), sample_db)
   \<and> check_answer \<lparr>ca_questionId = Some (NotObjectId (JNum 5)), ca_userAnswer = Some (JNum 2)\<rparr>
        sample_db
       = (Response 500 (JObj [(''error'', JStr ''Error checking answer'')]), sample_db)
   \<and> 5 \<in> q_id ` set (questions sample_db)
   \<and> (\<exists>body. check_answer \<lparr>ca_questionId = Some (ObjectId 5), ca_userAnswer = Some (JNum 2)\<rparr>
                 sample_db
                 = (Response 200 (JObj body), sample_db)
          \<and> get_field ''correct'' body = Some (JBool True)
          \<and> get_field ''correctAnswer'' body = Some (JNum 2)
          \<and> get_field ''explanation'' body
               = map_option JStr (q_explanation (sample_questions ! 1)))
   \<and> (\<exists>body. check_answer \<lparr>ca_questionId = Some (ObjectId 5), ca_userAnswer = Some (JNum 3)\<rparr>
                 sample_db
                 = (Response 200 (JObj body), sample_db)
          \<and> get_field ''correct'' body = Some (JBool False)
          \<and> get_field ''correctAnswer'' body = Some (JNum 2)
          \<and> get_field ''explanation'' body
               = map_option JStr (q_explanation (sample_questions ! 1)))
   \<and> (\<exists>body. check_answer \<lparr>ca_questionId = Some (IdCondition (\<lambda>i. True)),
                              ca_userAnswer = Some (JNum 0)\<rparr> sample_db
                 = (Response 200 (JObj body), sample_db)
          \<and> get_field ''correct'' body = Some (JBool False)
          \<and> get_field ''correctAnswer'' body = Some (JNum 2))"
proof -
  have qs: "set (questions sample_db) = {sample_questions ! 0, sample_questions ! 1}"
    by (simp add: sample_db_def sample_questions_def)
  have i0: "q_id (sample_questions ! 0) = 4" and i1: "q_id (sample_questions ! 1) = 5"
    and c0: "q_correctAnswer (sample_questions ! 0) = 2"
    and c1: "q_correctAnswer (sample_questions ! 1) = 2"
    by (simp_all add: sample_questions_def)
  have h1: "99 \<notin> q_id ` set (questions sample_db)"
    by (simp add: qs i0 i1 del: One_nat_def)
  have h2: "5 \<in> q_id ` set (questions sample_db)"
    by (simp add: qs i0 i1 del: One_nat_def)
  note t0 = check_answer_reveals_after_attempt
              [of "\<lparr>ca_questionId = None, ca_userAnswer = Some (JNum 2)\<rparr>" sample_db]
  note t1 = check_answer_reveals_after_attempt
              [of "\<lparr>ca_questionId = Some (ObjectId 99), ca_userAnswer = Some (JNum 2)\<rparr>" sample_db]
  note t2 = check_answer_reveals_after_attempt
              [of "\<lparr>ca_questionId = Some (IdCondition (\<lambda>i. 99 < i)),
                    ca_userAnswer = Some (JNum 2)\<rparr>" sample_db]
  note t3 = check_answer_reveals_after_attempt
              [of "\<lparr>ca_questionId = Some (NotObjectId (JNum 5)), ca_userAnswer = Some (JNum 2)\<rparr>"
                  sample_db]
  note t4 = check_answer_reveals_after_attempt
              [of "\<lparr>ca_questionId = Some (ObjectId 5), ca_userAnswer = Some (JNum 2)\<rparr>" sample_db]
  note t5 = check_answer_reveals_after_attempt
              [of "\<lparr>ca_questionId = Some (ObjectId 5), ca_userAnswer = Some (JNum 3)\<rparr>" sample_db]
  note t6 = check_answer_reveals_after_attempt
              [of "\<lparr>ca_questionId = Some (IdCondition (\<lambda>i. True)),
                    ca_userAnswer = Some (JNum 0)\<rparr>" sample_db]
  have r0: "check_answer \<lparr>ca_questionId = None, ca_userAnswer = Some (JNum 2)\<rparr> sample_db
       = (Response 404 (JObj [(''error'', JStr ''Question not found'')]), sample_db)"
    using t0 by (simp add: error_body_def)
  have r1: "check_answer \<lparr>ca_questionId = Some (ObjectId 99), ca_userAnswer = Some (JNum 2)\<rparr>
              sample_db
       = (Response 404 (JObj [(''error'', JStr ''Question not found'')]), sample_db)"
    using t1 h1 by (simp add: error_body_def)
  have r2: "check_answer \<lparr>ca_questionId = Some (IdCondition (\<lambda>i. 99 < i)),
                           ca_userAnswer = Some (JNum 2)\<rparr> sample_db
       = (Response 404 (JObj [(''error'', JStr ''Question not found'')]), sample_db)"
    using t2 by (simp add: error_body_def qs i0 i1 del: One_nat_def)
  have r3: "check_answer \<lparr>ca_questionId = Some (NotObjectId (JNum 5)), ca_userAnswer = Some (JNum 2)\<rparr>
              sample_db
       = (Response 500 (JObj [(''error'', JStr ''Error checking answer'')]), sample_db)"
    using t3 by (simp add: error_body_def)
  have r4: "\<exists>body. check_answer \<lparr>ca_questionId = Some (ObjectId 5), ca_userAnswer = Some (JNum 2)\<rparr>
                 sample_db
                 = (Response 200 (JObj body), sample_db)
          \<and> get_field ''correct'' body = Some (JBool True)
          \<and> get_field ''correctAnswer'' body = Some (JNum 2)
          \<and> get_field ''explanation'' body
               = map_option JStr (q_explanation (sample_questions ! 1))"
    using t4 h2 by (auto simp: qs i0 i1 c0 c1 simp del: One_nat_def)
  have r5: "\<exists>body. check_answer \<lparr>ca_questionId = Some (ObjectId 5), ca_userAnswer = Some (JNum 3)\<rparr>
                 sample_db
                 = (Response 200 (JObj body), sample_db)
          \<and> get_field ''correct'' body = Some (JBool False)
          \<and> get_field ''correctAnswer'' body = Some (JNum 2)
          \<and> get_field ''explanation'' body
               = map_option JStr (q_explanation (sample_questions ! 1))"
    using t5 h2 by (auto simp: qs i0 i1 c0 c1 simp del: One_nat_def)
  have r6: "\<exists>body. check_answer \<lparr>ca_questionId = Some (IdCondition (\<lambda>i. True)),
                              ca_userAnswer = Some (JNum 0)\<rparr> sample_db
                 = (Response 200 (JObj body), sample_db)
          \<and> get_field ''correct'' body = Some (JBool False)
          \<and> get_field ''correctAnswer'' body = Some (JNum 2)"
    using t6 by (auto simp: qs i0 i1 c0 c1 simp del: One_nat_def)
  from r0 h1 r1 r2 r3 h2 r4 r5 r6 show ?thesis by (intro conjI)
qed

text \<open>
  The claim as stated fails on an id that is not an ObjectId: no question has it, and
  the answer is 500, not 404.
\<close>

theorem check_answer_malformed_id_counterexample:
  "check_answer \<lparr>ca_questionId = Some (NotObjectId (JStr ''abc'')), ca_userAnswer = Some (JNum 2)\<rparr>
     sample_db
     = (Response 500 (JObj [(''error'', JStr ''Error checking answer'')]), sample_db)"
  by (simp add: check_answer_def findById_def error_body_def)

text \<open>
  An id that is a query condition is not looked up as an id: the operator object
  \<^verbatim>\<open>{"$ne": null}\<close>, a condition that every stored id meets, is answered 200 with
  the correct index of a stored question, here the first one.
\<close>

lemma check_answer_operator_object:
  "check_answer \<lparr>ca_questionId = Some (IdCondition (\<lambda>i. True)), ca_userAnswer = None\<rparr> sample_db
     = (Response 200
          (JObj [(''correct'', JBool False), (''correctAnswer'', JNum 2),
                 (''explanation'', JStr (the (q_explanation (sample_questions ! 0))))]),
        sample_db)"
  by (simp add: check_answer_def findById_def sample_db_def sample_questions_def opt_field_def)

section \<open>The guard on the protected routes\<close>

text \<open>
  C9. The guard answers 401 \<^verbatim>\<open>Access token required\<close> when the Authorization header
  yields no token, and 403 \<^verbatim>\<open>Invalid or expired token\<close> when it yields a token that
  \<^verbatim>\<open>jwt.verify\<close> rejects. In both cases the answer does not depend on the handler
  \<open>next\<close> behind the guard, and the database is unchanged; the same holds for every
  protected route of the application.
\<close>

theorem guard_rejects_before_handler:
  "(header_token h = None \<longrightarrow>
      authenticateToken e h next d = (Response 401 (error_body ''Access token required''), d))
   \<and> (\<forall>t. header_token h = Some t \<and> jwt_verify e t = None \<longrightarrow>
      authenticateToken e h next d = (Response 403 (error_body ''Invalid or expired token''), d))
   \<and> (protected (req_route req) \<and> header_token (req_authorization req) = None \<longrightarrow>
      app e c req d = (Response 401 (error_body ''Access token required''), d))
   \<and> (\<forall>t. protected (req_route req) \<and> header_token (req_authorization req) = Some t
          \<and> jwt_verify e t = None \<longrightarrow>
      app e c req d = (Response 403 (error_body ''Invalid or expired token''), d))"
proof -
  have "app e c req d = (Response 401 (error_body ''Access token required''), d)"
    if "protected (req_route req)" "header_token (req_authorization req) = None"
    using app_protected [OF that(1), of e c d] that(2)
    by (auto simp: authenticateToken_no_token)
  moreover have "app e c req d = (Response 403 (error_body ''Invalid or expired token''), d)"
    if "protected (req_route req)" "header_token (req_authorization req) = Some t"
      "jwt_verify e t = None" for t
    using app_protected [OF that(1), of e c d] that(2,3)
    by (auto simp: authenticateToken_bad_token)
  ultimately show ?thesis
    by (simp add: authenticateToken_no_token authenticateToken_bad_token)
qed

theorem guard_rejects_before_handler_witness:
  "header_token None = None
   \<and> header_token (Some ''Bearer forged'') = Some ''forged''
   \<and> jwt_verify sample_env ''forged'' = None
   \<and> protected GetDashboardStats
   \<and> protected (PostTestResults sample_result_body)
   \<and> authenticateToken sample_env None (\<lambda>user d. (Response 200 JNull, d\<lparr>users := []\<rparr>)) sample_db
        = (Response 401 (JObj [(''error'', JStr ''Access token required'')]), sample_db)
   \<and> authenticateToken sample_env (Some ''Bearer forged'')
        (\<lambda>user d. (Response 200 JNull, d\<lparr>users := []\<rparr>)) sample_db
        = (Response 403 (JObj [(''error'', JStr ''Invalid or expired token'')]), sample_db)
   \<and> app sample_env sample_ctx \<lparr>req_authorization = None, req_route = GetDashboardStats\<rparr> sample_db
        = (Response 401 (JObj [(''error'', JStr ''Access token required'')]), sample_db)
   \<and> app sample_env sample_ctx
        \<lparr>req_authorization = Some ''Bearer forged'',
         req_route = PostTestResults sample_result_body\<rparr> sample_db
        = (Response 403 (JObj [(''error'', JStr ''Invalid or expired token'')]), sample_db)"
proof -
  have h1: "header_token None = None"
    by (simp add: header_token_def)
  have h2: "header_token (Some ''Bearer forged'') = Some ''forged''"
    by (simp add: header_token_def)
  have h3: "jwt_verify sample_env ''forged'' = None"
    by (simp add: sample_env_def sample_verify_def)
  show ?thesis
    using guard_rejects_before_handler
            [of None sample_env "\<lambda>user d. (Response 200 JNull, d\<lparr>users := []\<rparr>)" sample_db
                "\<lparr>req_authorization = None, req_route = GetDashboardStats\<rparr>" sample_ctx]
          guard_rejects_before_handler
            [of "Some ''Bearer forged''" sample_env
                "\<lambda>user d. (Response 200 JNull, d\<lparr>users := []\<rparr>)" sample_db
                "\<lparr>req_authorization = Some ''Bearer forged'',
                  req_route = PostTestResults sample_result_body\<rparr>"
                sample_ctx]
          h1 h2 h3
    by (simp add: error_body_def)
qed

section \<open>Test results and the dashboard\<close>

text \<open>
  C3. With a valid token, the list of test results is answered 200 with the JSON of
  stored results \<open>rs\<close> that all belong to the account of the token, at most ten of them,
  in descending order of date. A result that another account submits does not change
  this list: after any submission under a token of a different account, the list is
  the same.
\<close>

theorem test_results_own_ten_newest_first:
  assumes tok: "header_token h = Some t" and ver: "jwt_verify e t = Some user"
  shows "\<exists>rs. get_test_results e h d
                = (Response 200 (JArr (map (\<lambda>r. JObj (testResult_fields r)) rs)), d)
            \<and> (\<forall>r\<in>set rs. r \<in> set (testResults d) \<and> tr_userId r = c_userId user)
            \<and> length rs \<le> 10
            \<and> sorted_wrt (\<ge>) (map tr_date rs)
            \<and> (\<forall>hA tA a c body. header_token hA = Some tA \<and> jwt_verify e tA = Some a
                  \<and> c_userId a \<noteq> c_userId user \<longrightarrow>
                  fst (get_test_results e h (snd (post_test_results e c hA body d)))
                    = Response 200 (JArr (map (\<lambda>r. JObj (testResult_fields r)) rs)))"
proof -
  let ?rs = "mongo_limit 10 (sort_desc tr_date (find_results (c_userId user) d))"
  have resp: "get_test_results e h d' =
      (Response 200 (JArr (map (\<lambda>r. JObj (testResult_fields r))
          (mongo_limit 10 (sort_desc tr_date (find_results (c_userId user) d'))))), d')" for d'
    using tok ver by (simp add: get_test_results_def authenticateToken_valid)
  have own: "\<forall>r\<in>set ?rs. r \<in> set (testResults d) \<and> tr_userId r = c_userId user"
    using mongo_limit_subset [of 10 "sort_desc tr_date (find_results (c_userId user) d)"]
    by (auto simp: sort_desc_set find_results_owned)
  have len: "length ?rs \<le> 10"
    using mongo_limit_length [of 10 "sort_desc tr_date (find_results (c_userId user) d)"] by simp
  have ord: "sorted_wrt (\<ge>) (map tr_date ?rs)"
    by (rule mongo_limit_descending) (rule sort_desc_descending)
  have iso: "fst (get_test_results e h (snd (post_test_results e c hA body d)))
                    = Response 200 (JArr (map (\<lambda>r. JObj (testResult_fields r)) ?rs))"
    if "header_token hA = Some tA" "jwt_verify e tA = Some a" "c_userId a \<noteq> c_userId user"
    for hA tA a c body
  proof (cases "new_TestResult c (c_userId a) body")
    case (Inl err)
    then have "snd (post_test_results e c hA body d) = d"
      using that by (simp add: post_test_results_def authenticateToken_valid)
    then show ?thesis by (simp add: resp)
  next
    case (Inr r)
    then have "snd (post_test_results e c hA body d) = d\<lparr>testResults := testResults d @ [r]\<rparr>"
      using that by (simp add: post_test_results_def authenticateToken_valid)
    moreover have "tr_userId r \<noteq> c_userId user"
      using new_TestResult_owner [OF Inr] that(3) by simp
    ultimately show ?thesis
      by (simp add: resp find_results_append_other)
  qed
  show ?thesis
    using resp [of d] own len ord iso by blast
qed

theorem test_results_own_ten_newest_first_witness:
  "header_token (Some ''Bearer alice-token'') = Some ''alice-token''
   \<and> jwt_verify sample_env ''alice-token''
        = Some \<lparr>c_userId = 11, c_email = ''alice@example.com'', c_role = ''user''\<rparr>
   \<and> header_token (Some ''Bearer bob-token'') = Some ''bob-token''
   \<and> jwt_verify sample_env ''bob-token''
        = Some \<lparr>c_userId = 12, c_email = ''bob@example.com'', c_role = ''user''\<rparr>
   \<and> get_test_results sample_env (Some ''Bearer alice-token'') sample_db
        = (Response 200 (JArr [JObj (testResult_fields (sample_results ! 2)),
                               JObj (testResult_fields (sample_results ! 0))]), sample_db)
   \<and> testResults (snd (post_test_results sample_env sample_ctx (Some ''Bearer bob-token'')
                          sample_result_body sample_db))
        \<noteq> testResults sample_db
   \<and> fst (get_test_results sample_env (Some ''Bearer alice-token'')
            (snd (post_test_results sample_env sample_ctx (Some ''Bearer bob-token'')
                    sample_result_body sample_db)))
        = Response 200 (JArr [JObj (testResult_fields (sample_results ! 2)),
                              JObj (testResult_fields (sample_results ! 0))])"
proof -
  have h1: "header_token (Some ''Bearer alice-token'') = Some ''alice-token''"
    by (simp add: header_token_def)
  have h2: "jwt_verify sample_env ''alice-token''
        = Some \<lparr>c_userId = 11, c_email = ''alice@example.com'', c_role = ''user''\<rparr>"
    by (simp add: sample_env_def sample_verify_def)
  have h3: "header_token (Some ''Bearer bob-token'') = Some ''bob-token''"
    by (simp add: header_token_def)
  have h4: "jwt_verify sample_env ''bob-token''
        = Some \<lparr>c_userId = 12, c_email = ''bob@example.com'', c_role = ''user''\<rparr>"
    by (simp add: sample_env_def sample_verify_def)
  have ev: "get_test_results sample_env (Some ''Bearer alice-token'') sample_db
        = (Response 200 (JArr [JObj (testResult_fields (sample_results ! 2)),
                               JObj (testResult_fields (sample_results ! 0))]), sample_db)"
    by (simp add: get_test_results_def authenticateToken_valid [OF h1 h2] find_results_def
        sort_desc_def mongo_limit_def sample_db_def sample_results_def)
  have post: "testResults (snd (post_test_results sample_env sample_ctx (Some ''Bearer bob-token'')
                          sample_result_body sample_db))
        \<noteq> testResults sample_db"
    by (simp add: post_test_results_def authenticateToken_valid [OF h3 h4] new_TestResult_def
        sample_result_body_def)
  from test_results_own_ten_newest_first [OF h1 h2, of sample_db]
  obtain rs where a: "get_test_results sample_env (Some ''Bearer alice-token'') sample_db
                = (Response 200 (JArr (map (\<lambda>r. JObj (testResult_fields r)) rs)), sample_db)"
    and iso: "\<forall>hA tA a c body. header_token hA = Some tA \<and> jwt_verify sample_env tA = Some a
                  \<and> c_userId a \<noteq> c_userId \<lparr>c_userId = 11, c_email = ''alice@example.com'', c_role = ''user''\<rparr> \<longrightarrow>
                  fst (get_test_results sample_env (Some ''Bearer alice-token'')
                        (snd (post_test_results sample_env c hA body sample_db)))
                    = Response 200 (JArr (map (\<lambda>r. JObj (testResult_fields r)) rs))"
    by blast
  from iso h3 h4
  have "fst (get_test_results sample_env (Some ''Bearer alice-token'')
            (snd (post_test_results sample_env sample_ctx (Some ''Bearer bob-token'')
                    sample_result_body sample_db)))
          = Response 200 (JArr (map (\<lambda>r. JObj (testResult_fields r)) rs))"
    by simp
  with a ev have "fst (get_test_results sample_env (Some ''Bearer alice-token'')
            (snd (post_test_results sample_env sample_ctx (Some ''Bearer bob-token'')
                    sample_result_body sample_db)))
        = Response 200 (JArr [JObj (testResult_fields (sample_results ! 2)),
                              JObj (testResult_fields (sample_results ! 0))])"
    by simp
  with h1 h2 h3 h4 ev post show ?thesis by (intro conjI)
qed

text \<open>
  C7, as amended. With a valid token, the dashboard is computed over exactly the results
  of the token's account, in double-precision arithmetic: \<^verbatim>\<open>testsCompleted\<close> is their
  number; \<^verbatim>\<open>averageScore\<close> is \<^verbatim>\<open>Math.round\<close> of the scores added from the left
  and divided by their number, 0 when there are none; \<^verbatim>\<open>totalStudyTime\<close> is
  \<^verbatim>\<open>Math.round\<close> of the minutes added from the left, a result without minutes
  counting 0; a value that is not finite is written \<^verbatim>\<open>null\<close>. When the scores are
  whole numbers whose absolute values add up to less than \<open>2 ^ 52\<close>, the average is the
  exact mean rounded to the nearest integer, a half rounded up; when the minutes are
  whole numbers whose absolute values add up to less than \<open>2 ^ 53\<close>, the total is
  their exact sum.
\<close>

theorem dashboard_stats_of_own_results:
  assumes tok: "header_token h = Some t" and ver: "jwt_verify e t = Some user"
  shows "let rs = filter (\<lambda>r. tr_userId r = c_userId user) (testResults d);
             scores = map tr_score rs;
             minutes = map (\<lambda>r. or_zero (tr_timeSpent r)) rs;
             avg = json_number (Math_round
                     (if rs = [] then Fin 0
                      else div_count (foldl dadd (Fin 0) scores) (length rs)));
             total = json_number (Math_round (foldl dadd (Fin 0) minutes))
         in get_dashboard_stats e h d
              = (Response 200
                   (JObj [(''testsCompleted'', JNum (of_nat (length rs))),
                          (''averageScore'', avg),
                          (''totalStudyTime'', total)]), d)
            \<and> (rs = [] \<longrightarrow> avg = JNum 0 \<and> total = JNum 0)
            \<and> (rs \<noteq> [] \<and> length rs < 2 ^ 32 \<and> (\<forall>s\<in>set scores. whole s)
                 \<and> sum_list (map magnitude scores) < 2 ^ 52 \<longrightarrow>
                 avg = JNum (of_int \<lfloor>sum_list (map value_of scores) / of_nat (length rs) + 1 / 2\<rfloor>))
            \<and> ((\<forall>m\<in>set minutes. whole m) \<and> sum_list (map magnitude minutes) < 2 ^ 53 \<longrightarrow>
                 total = JNum (sum_list (map value_of minutes)))"
proof -
  let ?rs = "filter (\<lambda>r. tr_userId r = c_userId user) (testResults d)"
  let ?scores = "map tr_score ?rs"
  let ?minutes = "map (\<lambda>r. or_zero (tr_timeSpent r)) ?rs"
  have f1: "foldl (\<lambda>sum result. dadd sum (tr_score result)) (Fin 0) ?rs
              = foldl dadd (Fin 0) ?scores"
    by (rule foldl_map_fun [of dadd tr_score])
  have f2: "foldl (\<lambda>sum result. dadd sum (or_zero (tr_timeSpent result))) (Fin 0) ?rs
              = foldl dadd (Fin 0) ?minutes"
    by (rule foldl_map_fun [of dadd "\<lambda>r. or_zero (tr_timeSpent r)"])
  have resp: "get_dashboard_stats e h d
      = (Response 200
           (JObj [(''testsCompleted'', JNum (of_nat (length ?rs))),
                  (''averageScore'', json_number (Math_round
                     (if ?rs = [] then Fin 0
                      else div_count (foldl dadd (Fin 0) ?scores) (length ?rs)))),
                  (''totalStudyTime'', json_number (Math_round (foldl dadd (Fin 0) ?minutes)))]),
         d)"
    using tok ver
    by (simp add: get_dashboard_stats_def authenticateToken_valid find_results_def Let_def f1 f2)
  have none: "?rs = [] \<longrightarrow>
      json_number (Math_round
         (if ?rs = [] then Fin 0 else div_count (foldl dadd (Fin 0) ?scores) (length ?rs)))
        = JNum 0
      \<and> json_number (Math_round (foldl dadd (Fin 0) ?minutes)) = JNum 0"
  proof
    assume e: "?rs = []"
    show "json_number (Math_round
         (if ?rs = [] then Fin 0 else div_count (foldl dadd (Fin 0) ?scores) (length ?rs)))
        = JNum 0
      \<and> json_number (Math_round (foldl dadd (Fin 0) ?minutes)) = JNum 0"
      unfolding e by (simp add: Math_round_zero del: Math_round.simps)
  qed
  have mean: "?rs \<noteq> [] \<and> length ?rs < 2 ^ 32 \<and> (\<forall>s\<in>set ?scores. whole s)
      \<and> sum_list (map magnitude ?scores) < 2 ^ 52 \<longrightarrow>
      json_number (Math_round
         (if ?rs = [] then Fin 0 else div_count (foldl dadd (Fin 0) ?scores) (length ?rs)))
        = JNum (of_int \<lfloor>sum_list (map value_of ?scores) / of_nat (length ?rs) + 1 / 2\<rfloor>)"
  proof
    assume a: "?rs \<noteq> [] \<and> length ?rs < 2 ^ 32 \<and> (\<forall>s\<in>set ?scores. whole s)
      \<and> sum_list (map magnitude ?scores) < 2 ^ 52"
    then have "?scores \<noteq> []" "length ?scores < 2 ^ 32" "\<forall>s\<in>set ?scores. whole s"
      "sum_list (map magnitude ?scores) < 2 ^ 52"
      by simp_all
    from double_mean_whole [OF this] a show "json_number (Math_round
         (if ?rs = [] then Fin 0 else div_count (foldl dadd (Fin 0) ?scores) (length ?rs)))
        = JNum (of_int \<lfloor>sum_list (map value_of ?scores) / of_nat (length ?rs) + 1 / 2\<rfloor>)"
      by simp
  qed
  have sum: "(\<forall>m\<in>set ?minutes. whole m) \<and> sum_list (map magnitude ?minutes) < 2 ^ 53 \<longrightarrow>
      json_number (Math_round (foldl dadd (Fin 0) ?minutes))
        = JNum (sum_list (map value_of ?minutes))"
  proof
    assume "(\<forall>m\<in>set ?minutes. whole m) \<and> sum_list (map magnitude ?minutes) < 2 ^ 53"
    then have "\<forall>m\<in>set ?minutes. whole m" "sum_list (map magnitude ?minutes) < 2 ^ 53"
      by simp_all
    from double_total_whole [OF this]
    show "json_number (Math_round (foldl dadd (Fin 0) ?minutes))
        = JNum (sum_list (map value_of ?minutes))"
      by simp
  qed
  show ?thesis
    unfolding Let_def by (intro conjI resp none mean sum)
qed

theorem dashboard_stats_of_own_results_witness:
  "header_token (Some ''Bearer alice-token'') = Some ''alice-token''
   \<and> jwt_verify sample_env ''alice-token''
        = Some \<lparr>c_userId = 11, c_email = ''alice@example.com'', c_role = ''user''\<rparr>
   \<and> header_token (Some ''Bearer bob-token'') = Some ''bob-token''
   \<and> jwt_verify sample_env ''bob-token''
        = Some \<lparr>c_userId = 12, c_email = ''bob@example.com'', c_role = ''user''\<rparr>
   \<and> header_token (Some ''Bearer root-token'') = Some ''root-token''
   \<and> jwt_verify sample_env ''root-token''
        = Some \<lparr>c_userId = 10, c_email = ''root@example.com'', c_role = ''admin''\<rparr>
   \<and> map tr_score (filter (\<lambda>r. tr_userId r = 11) (testResults sample_db)) = [Fin 80, Fin 90]
   \<and> map (\<lambda>r. or_zero (tr_timeSpent r)) (filter (\<lambda>r. tr_userId r = 12) (testResults sample_db))
        = [Fin 20]
   \<and> filter (\<lambda>r. tr_userId r = 10) (testResults sample_db) = []
   \<and> get_dashboard_stats sample_env (Some ''Bearer alice-token'') sample_db
        = (Response 200 (JObj [(''testsCompleted'', JNum 2), (''averageScore'', JNum 85),
                               (''totalStudyTime'', JNum 32)]), sample_db)
   \<and> get_dashboard_stats sample_env (Some ''Bearer bob-token'') sample_db
        = (Response 200 (JObj [(''testsCompleted'', JNum 1), (''averageScore'', JNum 50),
                               (''totalStudyTime'', JNum 20)]), sample_db)
   \<and> get_dashboard_stats sample_env (Some ''Bearer root-token'') sample_db
        = (Response 200 (JObj [(''testsCompleted'', JNum 0), (''averageScore'', JNum 0),
                               (''totalStudyTime'', JNum 0)]), sample_db)"
proof -
  have h1: "header_token (Some ''Bearer alice-token'') = Some ''alice-token''"
    by (simp add: header_token_def)
  have h2: "jwt_verify sample_env ''alice-token''
        = Some \<lparr>c_userId = 11, c_email = ''alice@example.com'', c_role = ''user''\<rparr>"
    by (simp add: sample_env_def sample_verify_def)
  have h3: "header_token (Some ''Bearer bob-token'') = Some ''bob-token''"
    by (simp add: header_token_def)
  have h4: "jwt_verify sample_env ''bob-token''
        = Some \<lparr>c_userId = 12, c_email = ''bob@example.com'', c_role = ''user''\<rparr>"
    by (simp add: sample_env_def sample_verify_def)
  have h5: "header_token (Some ''Bearer root-token'') = Some ''root-token''"
    by (simp add: header_token_def)
  have h6: "jwt_verify sample_env ''root-token''
        = Some \<lparr>c_userId = 10, c_email = ''root@example.com'', c_role = ''admin''\<rparr>"
    by (simp add: sample_env_def sample_verify_def)
  have s1: "map tr_score (filter (\<lambda>r. tr_userId r = 11) (testResults sample_db)) = [Fin 80, Fin 90]"
    by (simp add: sample_db_def sample_results_def)
  have s2: "map (\<lambda>r. or_zero (tr_timeSpent r)) (filter (\<lambda>r. tr_userId r = 12) (testResults sample_db))
        = [Fin 20]"
    by (simp add: sample_db_def sample_results_def)
  have s3: "filter (\<lambda>r. tr_userId r = 10) (testResults sample_db) = []"
    by (simp add: sample_db_def sample_results_def)
  have a: "get_dashboard_stats sample_env (Some ''Bearer alice-token'') sample_db
        = (Response 200 (JObj [(''testsCompleted'', JNum 2), (''averageScore'', JNum 85),
                               (''totalStudyTime'', JNum 32)]), sample_db)"
    using dashboard_stats_of_own_results [OF h1 h2, of sample_db]
    by (simp add: sample_db_def sample_results_def Let_def whole_def magnitude_def value_of_def
        floor_rat_numeral round_double_numeral round_double_63_halves)
  have b: "get_dashboard_stats sample_env (Some ''Bearer bob-token'') sample_db
        = (Response 200 (JObj [(''testsCompleted'', JNum 1), (''averageScore'', JNum 50),
                               (''totalStudyTime'', JNum 20)]), sample_db)"
    using dashboard_stats_of_own_results [OF h3 h4, of sample_db]
    by (simp add: sample_db_def sample_results_def Let_def whole_def magnitude_def value_of_def
        floor_rat_numeral round_double_numeral)
  have c: "get_dashboard_stats sample_env (Some ''Bearer root-token'') sample_db
        = (Response 200 (JObj [(''testsCompleted'', JNum 0), (''averageScore'', JNum 0),
                               (''totalStudyTime'', JNum 0)]), sample_db)"
    using dashboard_stats_of_own_results [OF h5 h6, of sample_db]
    by (simp add: sample_db_def sample_results_def Let_def)
  from h1 h2 h3 h4 h5 h6 s1 s2 s3 a b c show ?thesis by (intro conjI)
qed

text \<open>
  The claim as stated fails on fractional minutes: Alice's results took 30 and 1.5
  minutes, 31.5 in all, and the dashboard reports 32.
\<close>

theorem dashboard_total_study_time_counterexample:
  "header_token (Some ''Bearer alice-token'') = Some ''alice-token''
   \<and> jwt_verify sample_env ''alice-token''
        = Some \<lparr>c_userId = 11, c_email = ''alice@example.com'', c_role = ''user''\<rparr>
   \<and> map tr_timeSpent (filter (\<lambda>r. tr_userId r = 11) (testResults sample_db))
        = [Some (Fin 30), Some (Fin (3 / 2))]
   \<and> get_dashboard_stats sample_env (Some ''Bearer alice-token'') sample_db
        = (Response 200 (JObj [(''testsCompleted'', JNum 2), (''averageScore'', JNum 85),
                               (''totalStudyTime'', JNum 32)]), sample_db)
   \<and> JNum 32 \<noteq> JNum (30 + 3 / 2)"
proof -
  have h1: "header_token (Some ''Bearer alice-token'') = Some ''alice-token''"
    by (simp add: header_token_def)
  have h2: "jwt_verify sample_env ''alice-token''
        = Some \<lparr>c_userId = 11, c_email = ''alice@example.com'', c_role = ''user''\<rparr>"
    by (simp add: sample_env_def sample_verify_def)
  have s: "map tr_timeSpent (filter (\<lambda>r. tr_userId r = 11) (testResults sample_db))
        = [Some (Fin 30), Some (Fin (3 / 2))]"
    by (simp add: sample_db_def sample_results_def)
  have a: "get_dashboard_stats sample_env (Some ''Bearer alice-token'') sample_db
        = (Response 200 (JObj [(''testsCompleted'', JNum 2), (''averageScore'', JNum 85),
                               (''totalStudyTime'', JNum 32)]), sample_db)"
    by (simp add: get_dashboard_stats_def authenticateToken_valid [OF h1 h2] find_results_def
        sample_db_def sample_results_def floor_rat_numeral
        round_double_numeral round_double_63_halves)
  have n: "JNum 32 \<noteq> JNum (30 + 3 / 2)" by simp
  from h1 h2 s a n show ?thesis by (intro conjI)
qed


section \<open>Registration\<close>




section \<open>Adding a university\<close>




section \<open>Listing universities\<close>

text \<open>
  C8, as amended. A request with a parameter that the database rejects (a country or a
  search that cannot be cast, a search that is not a regular expression) is answered
  500. Every other request is answered 200 with exactly the stored universities that
  pass both filters, sorted by ranking ascending (a university without a ranking
  first): a non-empty country string keeps the universities whose country equals it,
  a country that is an array or an operator object keeps those whose country meets
  the condition it denotes, and a search keeps those whose name matches the parameter
  read as a case-insensitive regular expression.
\<close>

theorem universities_filtered_and_ranked:
  "(uq_country q = Some QRejected \<or> uq_search q = Some QRejected \<longrightarrow>
      get_universities e q d = (Response 500 (error_body ''Error fetching universities''), d))
   \<and> (\<forall>s. (uq_search q = Some (QString s) \<and> s \<noteq> [] \<or> uq_search q = Some (QCast s))
          \<and> regex_compile_i e s = None \<longrightarrow>
      get_universities e q d = (Response 500 (error_body ''Error fetching universities''), d))
   \<and> (uq_country q \<noteq> Some QRejected \<and> uq_search q \<noteq> Some QRejected
       \<and> (\<forall>s. uq_search q = Some (QString s) \<and> s \<noteq> [] \<or> uq_search q = Some (QCast s) \<longrightarrow>
              regex_compile_i e s \<noteq> None) \<longrightarrow>
        (\<exists>us. get_universities e q d
                 = (Response 200 (JArr (map (\<lambda>u. JObj (university_fields u)) us)), d)
             \<and> sorted (map uni_ranking us)
             \<and> (\<forall>u. u \<in> set us \<longleftrightarrow>
                    u \<in> set (universities d)
                  \<and> (\<forall>c. uq_country q = Some (QString c) \<and> c \<noteq> [] \<longrightarrow> uni_country u = c)
                  \<and> (\<forall>P. uq_country q = Some (QCast P) \<longrightarrow> P (uni_country u))
                  \<and> (\<forall>s m. (uq_search q = Some (QString s) \<and> s \<noteq> []
                              \<or> uq_search q = Some (QCast s))
                            \<and> regex_compile_i e s = Some m \<longrightarrow> m (uni_name u)))))"
proof (intro conjI allI impI)
  assume "uq_country q = Some QRejected \<or> uq_search q = Some QRejected"
  then show "get_universities e q d = (Response 500 (error_body ''Error fetching universities''), d)"
    by (auto simp: get_universities_def country_filter_def name_filter_def
        split: sum.splits option.splits query_param.splits)
next
  fix s
  assume "(uq_search q = Some (QString s) \<and> s \<noteq> [] \<or> uq_search q = Some (QCast s))
          \<and> regex_compile_i e s = None"
  then show "get_universities e q d = (Response 500 (error_body ''Error fetching universities''), d)"
    by (auto simp: get_universities_def country_filter_def name_filter_def regex_filter_def
        split: sum.splits option.splits query_param.splits)
next
  assume ok: "uq_country q \<noteq> Some QRejected \<and> uq_search q \<noteq> Some QRejected
       \<and> (\<forall>s. uq_search q = Some (QString s) \<and> s \<noteq> [] \<or> uq_search q = Some (QCast s) \<longrightarrow>
              regex_compile_i e s \<noteq> None)"
  have "\<exists>cf. country_filter (uq_country q) = Inr cf"
  proof (cases "uq_country q")
    case None
    then show ?thesis by (simp add: country_filter_def)
  next
    case (Some c)
    with ok show ?thesis by (cases c) (simp_all add: country_filter_def)
  qed
  then obtain cf where cf: "country_filter (uq_country q) = Inr cf" by blast
  have "\<exists>nf. name_filter e (uq_search q) = Inr nf"
  proof (cases "uq_search q")
    case None
    then show ?thesis by (simp add: name_filter_def)
  next
    case (Some x)
    show ?thesis
    proof (cases x)
      case (QString s)
      with ok Some have "s \<noteq> [] \<longrightarrow> regex_compile_i e s \<noteq> None" by blast
      with Some QString show ?thesis
        by (cases "s = []") (auto simp: name_filter_def regex_filter_def)
    next
      case (QCast s)
      with ok Some have "regex_compile_i e s \<noteq> None" by blast
      with Some QCast show ?thesis
        by (auto simp: name_filter_def regex_filter_def)
    next
      case QRejected
      with ok Some show ?thesis by simp
    qed
  qed
  then obtain nf where nf: "name_filter e (uq_search q) = Inr nf" by blast
  let ?us = "sort_asc uni_ranking
               (filter (\<lambda>u. cf (uni_country u) \<and> nf (uni_name u)) (universities d))"
  have resp: "get_universities e q d
               = (Response 200 (JArr (map (\<lambda>u. JObj (university_fields u)) ?us)), d)"
    using cf nf by (simp add: get_universities_def)
  have srt: "sorted (map uni_ranking ?us)"
    by (rule sort_asc_sorted)
  have cty: "cf v \<longleftrightarrow>
               (\<forall>c. uq_country q = Some (QString c) \<and> c \<noteq> [] \<longrightarrow> v = c)
             \<and> (\<forall>P. uq_country q = Some (QCast P) \<longrightarrow> P v)" for v
    using cf by (auto simp: country_filter_def split: option.splits query_param.splits if_splits)
  have nam: "nf v \<longleftrightarrow>
               (\<forall>s m. (uq_search q = Some (QString s) \<and> s \<noteq> [] \<or> uq_search q = Some (QCast s))
                      \<and> regex_compile_i e s = Some m \<longrightarrow> m v)" for v
    using nf
    by (auto simp: name_filter_def regex_filter_def
        split: option.splits query_param.splits if_splits)
  have mem: "\<forall>u. u \<in> set ?us \<longleftrightarrow>
                    u \<in> set (universities d)
                  \<and> (\<forall>c. uq_country q = Some (QString c) \<and> c \<noteq> [] \<longrightarrow> uni_country u = c)
                  \<and> (\<forall>P. uq_country q = Some (QCast P) \<longrightarrow> P (uni_country u))
                  \<and> (\<forall>s m. (uq_search q = Some (QString s) \<and> s \<noteq> []
                              \<or> uq_search q = Some (QCast s))
                            \<and> regex_compile_i e s = Some m \<longrightarrow> m (uni_name u))"
    unfolding sort_asc_set set_filter mem_Collect_eq
    using cty nam by (intro allI) (simp only: conj_assoc)
  show "\<exists>us. get_universities e q d
                 = (Response 200 (JArr (map (\<lambda>u. JObj (university_fields u)) us)), d)
             \<and> sorted (map uni_ranking us)
             \<and> (\<forall>u. u \<in> set us \<longleftrightarrow>
                    u \<in> set (universities d)
                  \<and> (\<forall>c. uq_country q = Some (QString c) \<and> c \<noteq> [] \<longrightarrow> uni_country u = c)
                  \<and> (\<forall>P. uq_country q = Some (QCast P) \<longrightarrow> P (uni_country u))
                  \<and> (\<forall>s m. (uq_search q = Some (QString s) \<and> s \<noteq> []
                              \<or> uq_search q = Some (QCast s))
                            \<and> regex_compile_i e s = Some m \<longrightarrow> m (uni_name u)))"
    by (rule exI [of _ ?us]) (intro conjI resp srt mem)
qed

theorem universities_filtered_and_ranked_witness:
  "get_universities sample_env \<lparr>uq_country = Some QRejected, uq_search = None\<rparr> sample_db
      = (Response 500 (JObj [(''error'', JStr ''Error fetching universities'')]), sample_db)
   \<and> regex_compile_i sample_env ''('' = None
   \<and> get_universities sample_env \<lparr>uq_country = None, uq_search = Some (QString ''('')\<rparr> sample_db
      = (Response 500 (JObj [(''error'', JStr ''Error fetching universities'')]), sample_db)
   \<and> regex_compile_i sample_env ''ox'' = Some (search_from ''ox'')
   \<and> (\<exists>us. get_universities sample_env
               \<lparr>uq_country = Some (QString ''UK''), uq_search = Some (QString ''ox'')\<rparr> sample_db
               = (Response 200 (JArr (map (\<lambda>u. JObj (university_fields u)) us)), sample_db)
           \<and> sorted (map uni_ranking us)
           \<and> (\<forall>u. u \<in> set us \<longleftrightarrow>
                  u \<in> set (universities sample_db) \<and> uni_country u = ''UK''
                \<and> search_from ''ox'' (uni_name u)))
   \<and> get_universities sample_env
        \<lparr>uq_country = Some (QString ''UK''), uq_search = Some (QString ''ox'')\<rparr> sample_db
        = (Response 200 (JArr [JObj (university_fields (sample_universities ! 2))]), sample_db)
   \<and> uni_name (sample_universities ! 2) = ''Oxford University''
   \<and> get_universities sample_env \<lparr>uq_country = Some (QString ''USA''), uq_search = None\<rparr> sample_db
        = (Response 200 (JArr [JObj (university_fields (sample_universities ! 0)),
                               JObj (university_fields (sample_universities ! 1))]), sample_db)"
proof -
  have lit: "literal_pattern ''ox''"
    by (simp add: literal_pattern_def metachars_def)
  have rx: "regex_compile_i sample_env ''ox'' = Some (search_from ''ox'')"
    by (simp add: sample_env_def regex_dot_i_literal [OF lit])
  have bad: "regex_compile_i sample_env ''('' = None"
    by (simp add: sample_env_def regex_dot_i_def metachars_def)
  note t1 = universities_filtered_and_ranked
              [of "\<lparr>uq_country = Some QRejected, uq_search = None\<rparr>" sample_env sample_db]
  note t2 = universities_filtered_and_ranked
              [of "\<lparr>uq_country = None, uq_search = Some (QString ''('')\<rparr>" sample_env sample_db]
  note t3 = universities_filtered_and_ranked
              [of "\<lparr>uq_country = Some (QString ''UK''), uq_search = Some (QString ''ox'')\<rparr>"
                  sample_env sample_db]
  have r1: "get_universities sample_env \<lparr>uq_country = Some QRejected, uq_search = None\<rparr> sample_db
      = (Response 500 (JObj [(''error'', JStr ''Error fetching universities'')]), sample_db)"
    using t1 by (simp add: error_body_def)
  have r2: "get_universities sample_env \<lparr>uq_country = None, uq_search = Some (QString ''('')\<rparr>
              sample_db
      = (Response 500 (JObj [(''error'', JStr ''Error fetching universities'')]), sample_db)"
    using conjunct1 [OF conjunct2 [OF t2]] bad by (simp add: error_body_def)
  have r3: "\<exists>us. get_universities sample_env
               \<lparr>uq_country = Some (QString ''UK''), uq_search = Some (QString ''ox'')\<rparr> sample_db
               = (Response 200 (JArr (map (\<lambda>u. JObj (university_fields u)) us)), sample_db)
           \<and> sorted (map uni_ranking us)
           \<and> (\<forall>u. u \<in> set us \<longleftrightarrow>
                  u \<in> set (universities sample_db) \<and> uni_country u = ''UK''
                \<and> search_from ''ox'' (uni_name u))"
    using conjunct2 [OF conjunct2 [OF t3]] rx by simp
  have ev1: "get_universities sample_env
        \<lparr>uq_country = Some (QString ''UK''), uq_search = Some (QString ''ox'')\<rparr> sample_db
        = (Response 200 (JArr [JObj (university_fields (sample_universities ! 2))]), sample_db)"
    by code_simp
  have nm: "uni_name (sample_universities ! 2) = ''Oxford University''"
    by (simp add: sample_universities_def)
  have ev2: "get_universities sample_env \<lparr>uq_country = Some (QString ''USA''), uq_search = None\<rparr>
               sample_db
        = (Response 200 (JArr [JObj (university_fields (sample_universities ! 0)),
                               JObj (university_fields (sample_universities ! 1))]), sample_db)"
    by code_simp
  from r1 bad r2 rx r3 ev1 nm ev2 show ?thesis by (intro conjI)
qed

text \<open>
  The claim as stated fails on a search with a metacharacter: the dot matches every
  name, and no name of the sample contains a dot.
\<close>

theorem universities_regex_search_counterexample:
  "get_universities sample_env \<lparr>uq_country = None, uq_search = Some (QString ''.'')\<rparr> sample_db
     = (Response 200 (JArr (map (\<lambda>u. JObj (university_fields u)) sample_universities)), sample_db)
   \<and> uni_name (sample_universities ! 0) = ''Harvard University''
   \<and> \<not> contains_ci ''.'' ''Harvard University''"
  by code_simp

text \<open>
  A country that is not a string is not matched exactly: \<^verbatim>\<open>country[$ne]=USA\<close> is
  parsed to the operator object \<^verbatim>\<open>{"$ne": "USA"}\<close>, and the answer holds the
  universities outside the USA.
\<close>

lemma universities_country_operator_object:
  "get_universities sample_env
     \<lparr>uq_country = Some (QCast (\<lambda>c. c \<noteq> ''USA'')), uq_search = None\<rparr> sample_db
     = (Response 200 (JArr [JObj (university_fields (sample_universities ! 2))]), sample_db)
   \<and> uni_country (sample_universities ! 2) = ''UK''"
  by code_simp

text \<open>
  A search without a metacharacter is the substring search under the engine of the
  sample: \<^verbatim>\<open>search=ox\<close> finds Oxford University.
\<close>

lemma universities_search_ox:
  "get_universities sample_env \<lparr>uq_country = None, uq_search = Some (QString ''ox'')\<rparr> sample_db
     = (Response 200 (JArr [JObj (university_fields (sample_universities ! 2))]), sample_db)
   \<and> contains_ci ''ox'' ''Oxford University''"
  by code_simp

end
